theory Spec2Isabelle
  imports Main
begin

section \<open>SLA deadline monitor and notification derivation\<close>

text \<open>
  The development embeds five pieces of the repository:
  \<^item> the SQL function \<open>check_subtask_sla_notifications\<close> created by
    \<open>POST /setup-auto-sla\<close> and the handler of \<open>POST /auto-sync\<close> that calls it
    (\<open>server/routes/notifications-production.ts\<close>);
  \<^item> \<open>FinOpsAlertService.checkSubtaskSLA\<close> of the alert service;
  \<^item> the type and priority \<open>CASE\<close> expressions of \<open>GET /\<close>;
  \<^item> \<open>transformDbNotifications\<close> and the rendering guard for escalation managers of
    the notification page;
  \<^item> the mock fallback of \<open>GET /\<close>.

  Conventions. Database timestamps and times of day are integers in microseconds
  (the resolution of PostgreSQL); JavaScript instants are integers in milliseconds.
  Strings are byte lists, so the bullet of the message templates is its three UTF-8
  bytes. Case folding acts on the ASCII letters; a non-ASCII letter whose lower case is
  an ASCII letter is left as it is. A \<open>NULL\<close> column is \<open>None\<close>.
\<close>

subsection \<open>Decimal rendering of integers\<close>

definition digit_char :: "nat \<Rightarrow> char" where
  "digit_char d = char_of (48 + d)"

fun show_nat :: "nat \<Rightarrow> string" where
  "show_nat n = (if n < 10 then [digit_char n] else show_nat (n div 10) @ [digit_char (n mod 10)])"

declare show_nat.simps [simp del]

definition show_int :: "int \<Rightarrow> string" where
  "show_int i = (if i < 0 then CHR ''-'' # show_nat (nat (- i)) else show_nat (nat i))"

definition bullet :: string where
  "bullet = [CHR 0xE2, CHR 0x80, CHR 0xA2]"

subsection \<open>Tables\<close>

record subtask =
  st_id :: int
  st_task_id :: int
  st_name :: string
  st_assigned_to :: "string option"
  st_status :: string
  start_time :: "int option"
  auto_notify :: "bool option"
  started_at :: "int option"
  sla_hours :: int
  sla_minutes :: int

record task =
  t_id :: int
  task_name :: string
  t_assigned_to :: "string option"
  is_active :: "bool option"

text \<open>
  In \<open>subtask\<close>, \<open>start_time\<close> is the \<open>TIME\<close> column (microseconds since midnight)
  and \<open>started_at\<close> is the timestamp the alert service reads through \<open>new Date\<close>
  (milliseconds since the epoch).

  Of \<open>finops_activity_log\<close> the columns are kept that the SQL function reads and the
  handler of \<open>POST /auto-sync\<close> writes; the \<open>id\<close> comes from the sequence of the table.
\<close>

record activity =
  ev_action :: string
  ev_task_id :: "int option"
  ev_subtask_id :: "int option"
  ev_user_name :: string
  ev_details :: string
  ev_timestamp :: int

text \<open>
  A row of the result table of the SQL function. Its column \<open>time_diff_minutes\<close> is
  represented by its type alone (below): no row with a value in it is ever returned.
\<close>

record sla_row =
  notification_type :: string
  r_subtask_id :: int
  r_task_id :: int
  r_task_name :: string
  r_subtask_name :: string
  r_assigned_to :: "string option"
  message :: string

subsection \<open>PostgreSQL time arithmetic\<close>

definition usecs_per_minute :: int where
  "usecs_per_minute = 60000000"

definition usecs_per_day :: int where
  "usecs_per_day = 86400000000"

definition interval_15_minutes :: int where
  "interval_15_minutes = 15 * usecs_per_minute"

definition interval_1_hour :: int where
  "interval_1_hour = 60 * usecs_per_minute"

text \<open>\<open>CURRENT_TIME\<close> and \<open>CURRENT_DATE\<close> of the instant \<open>now\<close>.\<close>

definition current_time :: "int \<Rightarrow> int" where
  "current_time now = now mod usecs_per_day"

definition current_date :: "int \<Rightarrow> int" where
  "current_date now = now - now mod usecs_per_day"

text \<open>\<open>time + interval\<close> and \<open>time - interval\<close> yield a \<open>time\<close>: they wrap at midnight.\<close>

definition time_pl_interval :: "int \<Rightarrow> int \<Rightarrow> int" where
  "time_pl_interval t i = (t + i) mod usecs_per_day"

definition time_mi_interval :: "int \<Rightarrow> int \<Rightarrow> int" where
  "time_mi_interval t i = (t - i) mod usecs_per_day"

text \<open>
  \<open>ROUND(EXTRACT(EPOCH FROM d) / 60)\<close> for an interval of \<open>d\<close> microseconds: the
  nearest whole minute, ties away from zero.
\<close>

definition round_minutes :: "int \<Rightarrow> int" where
  "round_minutes d =
     (if 0 \<le> d then (2 * d + usecs_per_minute) div (2 * usecs_per_minute)
      else - ((2 * (- d) + usecs_per_minute) div (2 * usecs_per_minute)))"

subsection \<open>The queries of \<open>check_subtask_sla_notifications\<close>\<close>

text \<open>
  The function declares \<open>current_time TIME := CURRENT_TIME\<close>. Inside its two queries
  the word \<open>current_time\<close> is the keyword of SQL, of type \<open>time with time zone\<close>, and
  not that variable: PL/pgSQL puts its variables in the place of column references, and
  the keyword is none. In the \<open>WHERE\<close> clauses both readings give the same truth value:
  the \<open>TIME\<close> column is cast to \<open>timetz\<close> for a comparison, \<open>timetz\<close> plus or minus
  an interval wraps at midnight as \<open>time\<close> does, and \<open>current_date + current_time\<close>
  is the current instant. The value of \<open>current_time\<close> there is the time of day
  \<open>current_time now\<close> above.

  The \<open>NOT EXISTS\<close> subquery against \<open>finops_activity_log\<close>.
\<close>

definition recent_activity :: "int \<Rightarrow> activity list \<Rightarrow> subtask \<Rightarrow> string \<Rightarrow> bool" where
  "recent_activity now log fs act =
     (\<exists>fal \<in> set log.
        ev_task_id fal = Some (st_task_id fs) \<and>
        ev_subtask_id fal = Some (st_id fs) \<and>
        ev_action fal = act \<and>
        ev_timestamp fal > current_date now + current_time now - interval_1_hour)"

text \<open>
  The conditions both queries share on a joined row. \<open>fs.start_time IS NOT NULL\<close> is
  the \<open>Some\<close> case of \<open>selected\<close> below.
\<close>

definition monitored :: "subtask \<Rightarrow> task \<Rightarrow> bool" where
  "monitored fs ft =
     (st_task_id fs = t_id ft \<and>
      auto_notify fs = Some True \<and>
      (st_status fs = ''pending'' \<or> st_status fs = ''in_progress'') \<and>
      is_active ft = Some True)"

text \<open>The \<open>WHERE\<close> clauses, for a subtask whose \<open>start_time\<close> is \<open>s\<close>.\<close>

definition warning_where :: "int \<Rightarrow> activity list \<Rightarrow> subtask \<Rightarrow> int \<Rightarrow> task \<Rightarrow> bool" where
  "warning_where now log fs s ft =
     (monitored fs ft \<and>
      s > current_time now \<and>
      s \<le> time_pl_interval (current_time now) interval_15_minutes \<and>
      \<not> recent_activity now log fs ''sla_alert'')"

definition overdue_where :: "int \<Rightarrow> activity list \<Rightarrow> subtask \<Rightarrow> int \<Rightarrow> task \<Rightarrow> bool" where
  "overdue_where now log fs s ft =
     (monitored fs ft \<and>
      s < time_mi_interval (current_time now) interval_15_minutes \<and>
      \<not> recent_activity now log fs ''overdue_notification_sent'')"

text \<open>
  What \<open>FROM finops_subtasks fs LEFT JOIN finops_tasks ft ON fs.task_id = ft.id WHERE \<dots>\<close>
  selects: the \<open>WHERE\<close> clause requires \<open>ft.is_active = true\<close>, so unmatched subtasks
  drop out and the join is the list of matching pairs, each with the \<open>start_time\<close> of
  its subtask.
\<close>

definition selected :: "(subtask \<Rightarrow> int \<Rightarrow> task \<Rightarrow> bool) \<Rightarrow> subtask list \<Rightarrow> task list \<Rightarrow>
    (subtask \<times> int \<times> task) list" where
  "selected cond subs tasks =
     concat (map (\<lambda>fs. case start_time fs of
                          None \<Rightarrow> []
                        | Some s \<Rightarrow> map (\<lambda>ft. (fs, s, ft)) (filter (cond fs s) tasks)) subs)"

definition warning_selected ::
    "int \<Rightarrow> subtask list \<Rightarrow> task list \<Rightarrow> activity list \<Rightarrow> (subtask \<times> int \<times> task) list" where
  "warning_selected now subs tasks log = selected (warning_where now log) subs tasks"

definition overdue_selected ::
    "int \<Rightarrow> subtask list \<Rightarrow> task list \<Rightarrow> activity list \<Rightarrow> (subtask \<times> int \<times> task) list" where
  "overdue_selected now subs tasks log = selected (overdue_where now log) subs tasks"

subsection \<open>The select lists and the result of the function\<close>

text \<open>
  The select list of the first query subtracts the keyword from the column:
  \<open>fs.start_time - current_time\<close>, a \<open>time\<close> minus a \<open>timetz\<close>. The operators \<open>-\<close>
  of PostgreSQL on the three types, with the implicit casts (a \<open>time\<close> casts to
  \<open>timetz\<close> and to \<open>interval\<close>, a \<open>timetz\<close> to neither of the others):
\<close>

datatype time_type = TIME | TIMETZ | INTERVAL

fun minus_operator :: "time_type \<Rightarrow> time_type \<Rightarrow> time_type option" where
  "minus_operator TIME TIME = Some INTERVAL"
| "minus_operator TIME INTERVAL = Some TIME"
| "minus_operator TIMETZ INTERVAL = Some TIMETZ"
| "minus_operator TIMETZ TIME = Some TIMETZ"
| "minus_operator INTERVAL INTERVAL = Some INTERVAL"
| "minus_operator INTERVAL TIME = Some INTERVAL"
| "minus_operator TIME TIMETZ = None"
| "minus_operator TIMETZ TIMETZ = None"
| "minus_operator INTERVAL TIMETZ = None"

text \<open>
  \<open>RETURNS TABLE\<close> declares the column \<open>time_diff_minutes INTEGER\<close>; both queries
  return for it \<open>EXTRACT(EPOCH FROM \<dots>)/60\<close>, a \<open>numeric\<close> (a
  \<open>double precision\<close> before PostgreSQL 14, no integer either). \<open>RETURN QUERY\<close>
  casts nothing: it raises when a column of the query has another type than the declared
  one.
\<close>

datatype column_type = INTEGER | NUMERIC

definition time_diff_minutes_declared :: column_type where
  "time_diff_minutes_declared = INTEGER"

definition time_diff_minutes_returned :: column_type where
  "time_diff_minutes_returned = NUMERIC"

datatype sql_error = undefined_function | datatype_mismatch

definition coalesce :: "'a option \<Rightarrow> 'a option \<Rightarrow> 'a option" where
  "coalesce a b = (case a of Some x \<Rightarrow> Some x | None \<Rightarrow> b)"

text \<open>
  The other columns of the select lists, for a subtask whose \<open>start_time\<close> is \<open>s\<close>,
  with the difference of the two times of day as the function's declaration of
  \<open>current_time\<close> has it.
\<close>

definition warning_row :: "int \<Rightarrow> subtask \<Rightarrow> int \<Rightarrow> task \<Rightarrow> sla_row" where
  "warning_row now fs s ft =
     \<lparr> notification_type = ''sla_warning'',
       r_subtask_id = st_id fs,
       r_task_id = st_task_id fs,
       r_task_name = task_name ft,
       r_subtask_name = st_name fs,
       r_assigned_to = coalesce (st_assigned_to fs) (t_assigned_to ft),
       message = ''SLA Warning - '' @ show_int (round_minutes (s - current_time now)) @
                 '' min remaining '' @ bullet @ '' need to start'' \<rparr>"

definition overdue_row :: "int \<Rightarrow> subtask \<Rightarrow> int \<Rightarrow> task \<Rightarrow> sla_row" where
  "overdue_row now fs s ft =
     \<lparr> notification_type = ''sla_overdue'',
       r_subtask_id = st_id fs,
       r_task_id = st_task_id fs,
       r_task_name = task_name ft,
       r_subtask_name = st_name fs,
       r_assigned_to = coalesce (st_assigned_to fs) (t_assigned_to ft),
       message = ''Overdue by '' @ show_int (round_minutes (current_time now - s)) @
                 '' min '' @ bullet @ '' '' @
                 show_int (round_minutes (current_time now - s)) @ '' min ago'' \<rparr>"

text \<open>
  A call of the function. The first \<open>RETURN QUERY\<close> is planned when it is reached:
  without an operator for the difference in its select list the call raises
  \<open>undefined_function\<close> (``operator does not exist''); and a query whose seventh
  column is not of the declared type raises \<open>datatype_mismatch\<close> (``structure of query
  does not match function result type''). Only past both would the rows of the two
  queries be returned, in order.
\<close>

definition check_subtask_sla_notifications ::
    "int \<Rightarrow> subtask list \<Rightarrow> task list \<Rightarrow> activity list \<Rightarrow> sql_error + sla_row list" where
  "check_subtask_sla_notifications now subs tasks log =
     (case minus_operator TIME TIMETZ of
        None \<Rightarrow> Inl undefined_function
      | Some d \<Rightarrow>
          if time_diff_minutes_returned \<noteq> time_diff_minutes_declared then Inl datatype_mismatch
          else Inr (map (\<lambda>(fs, s, ft). warning_row now fs s ft)
                      (warning_selected now subs tasks log) @
                    map (\<lambda>(fs, s, ft). overdue_row now fs s ft)
                      (overdue_selected now subs tasks log)))"

subsection \<open>The handler of \<open>POST /auto-sync\<close>\<close>

text \<open>
  One \<open>INSERT\<close> per returned row; the row's \<open>NOW()\<close> is taken as the instant of the
  \<open>SELECT\<close>.
\<close>

definition to_activity :: "int \<Rightarrow> sla_row \<Rightarrow> activity" where
  "to_activity now r =
     \<lparr> ev_action = (if notification_type r = ''sla_warning'' then ''sla_alert''
                    else ''overdue_notification_sent''),
       ev_task_id = Some (r_task_id r),
       ev_subtask_id = Some (r_subtask_id r),
       ev_user_name = ''System'',
       ev_details = message r,
       ev_timestamp = now \<rparr>"

text \<open>
  The handler on a reachable database, given the log its \<open>SELECT\<close> reads: when the
  \<open>SELECT\<close> raises, the \<open>catch\<close> block answers with status 500 and no \<open>INSERT\<close> has
  run (\<open>Inl\<close>); otherwise the events of the \<open>INSERT\<close> statements the loop issues, in the
  order of the rows (\<open>Inr\<close>). The statements are listed, not applied: the \<open>SELECT\<close> and
  the \<open>INSERT\<close>s share no transaction, so what the table holds afterwards depends on the
  other requests in flight. \<open>GET /\<close> and the timer of \<open>POST /enable-auto-sync\<close>
  run the same \<open>SELECT\<close> and loop in a \<open>try\<close> block of their own, and a failure
  of the \<open>SELECT\<close> leaves them without an \<open>INSERT\<close> in the same way.
\<close>

definition auto_sync ::
    "int \<Rightarrow> subtask list \<Rightarrow> task list \<Rightarrow> activity list \<Rightarrow> sql_error + activity list" where
  "auto_sync now subs tasks log =
     (case check_subtask_sla_notifications now subs tasks log of
        Inl e \<Rightarrow> Inl e
      | Inr rows \<Rightarrow> Inr (map (to_activity now) rows))"

subsection \<open>The alert service: \<open>checkSubtaskSLA\<close>\<close>

text \<open>
  What \<open>checkSubtaskSLA\<close> decides for a subtask at the instant \<open>now\<close> (milliseconds):
  the sender it calls, with the minutes it passes on. \<open>setHours\<close> and \<open>setMinutes\<close>
  add the budget to the due time.
\<close>

datatype sla_decision = SendOverdue int | SendWarning int | NoAlert

definition checkSubtaskSLA :: "int \<Rightarrow> subtask \<Rightarrow> sla_decision" where
  "checkSubtaskSLA now st =
     (let started = (case started_at st of Some t \<Rightarrow> t | None \<Rightarrow> now);
          dueTime = started + sla_hours st * 3600000 + sla_minutes st * 60000;
          timeDiff = dueTime - now;
          minutesRemaining = timeDiff div 60000
      in if minutesRemaining < 0 then SendOverdue (abs minutesRemaining)
         else if minutesRemaining \<le> 15 \<and> minutesRemaining > 0 then SendWarning minutesRemaining
         else NoAlert)"

text \<open>\<open>processTaskAlerts\<close> looks only at subtasks in progress or pending.\<close>

definition processTaskAlerts :: "int \<Rightarrow> subtask list \<Rightarrow> (int \<times> sla_decision) list" where
  "processTaskAlerts now subs =
     map (\<lambda>st. (st_id st, checkSubtaskSLA now st))
       (filter (\<lambda>st. st_status st = ''in_progress'' \<or> st_status st = ''pending'') subs)"

subsection \<open>The phase each evaluator decides\<close>

datatype phase = Warning | Overdue | NoPhase

text \<open>
  The phase whose query of the SQL function selects a subtask, on tables that hold the
  subtask and the task alone and with an empty log; and the phase of the sender the alert
  service calls for it.
\<close>

definition sql_phase :: "int \<Rightarrow> subtask \<Rightarrow> task \<Rightarrow> phase" where
  "sql_phase now fs ft =
     (if warning_selected now [fs] [ft] [] \<noteq> [] then Warning
      else if overdue_selected now [fs] [ft] [] \<noteq> [] then Overdue
      else NoPhase)"

definition service_phase :: "int \<Rightarrow> subtask \<Rightarrow> phase" where
  "service_phase now st =
     (case map snd (processTaskAlerts now [st]) of
        [SendOverdue m] \<Rightarrow> Overdue
      | [SendWarning m] \<Rightarrow> Warning
      | _ \<Rightarrow> NoPhase)"

subsection \<open>The deadline in the words of the specification\<close>

text \<open>
  The specification derives a deadline \<open>scheduled_start + sla_budget\<close> and the remaining
  time \<open>deadline - now\<close>. These two definitions follow those words, on the scheduled
  \<open>start_time\<close> of the subtask, to compare them with what the SQL function computes.
\<close>

definition spec_deadline :: "subtask \<Rightarrow> int option" where
  "spec_deadline fs =
     (case start_time fs of
        None \<Rightarrow> None
      | Some s \<Rightarrow> Some (s + (sla_hours fs * 60 + sla_minutes fs) * usecs_per_minute))"

definition spec_remaining :: "int \<Rightarrow> subtask \<Rightarrow> int option" where
  "spec_remaining now fs =
     (case spec_deadline fs of None \<Rightarrow> None | Some d \<Rightarrow> Some (d - current_time now))"

subsection \<open>The classification \<open>CASE\<close> expressions of \<open>GET /\<close>\<close>

datatype ntype =
  sla_warning | sla_overdue | task_delayed | task_completed | task_pending |
  daily_reminder | escalation

datatype priority = low | medium | high | critical

definition lower_char :: "char \<Rightarrow> char" where
  "lower_char c =
     (let n = (of_char c :: nat) in if 65 \<le> n \<and> n \<le> 90 then char_of (n + 32) else c)"

definition lower :: "string \<Rightarrow> string" where
  "lower s = map lower_char s"

fun starts_with :: "string \<Rightarrow> string \<Rightarrow> bool" where
  "starts_with s [] = True"
| "starts_with [] (p # ps) = False"
| "starts_with (c # cs) (p # ps) = (c = p \<and> starts_with cs ps)"

text \<open>
  \<open>s.includes(p)\<close> in JavaScript and \<open>s LIKE '%p%'\<close> in SQL, for a pattern without
  wildcards of its own.
\<close>

fun str_includes :: "string \<Rightarrow> string \<Rightarrow> bool" where
  "str_includes [] p = starts_with [] p"
| "str_includes (c # cs) p = (starts_with (c # cs) p \<or> str_includes cs p)"

definition sql_type :: "string \<Rightarrow> string \<Rightarrow> ntype" where
  "sql_type action details =
     (if action = ''delay_reported'' then task_delayed
      else if action = ''overdue_notification_sent'' then sla_overdue
      else if action = ''completion_notification_sent'' then task_completed
      else if action = ''sla_alert'' then sla_warning
      else if action = ''escalation_required'' then escalation
      else if str_includes (lower details) ''overdue'' then sla_overdue
      else if (action = ''status_changed'' \<or> action = ''task_status_changed'') \<and>
              str_includes (lower details) ''overdue'' then sla_overdue
      else if (action = ''status_changed'' \<or> action = ''task_status_changed'') \<and>
              str_includes (lower details) ''completed'' then task_completed
      else if str_includes (lower details) ''starting in'' \<or>
              str_includes (lower details) ''sla warning'' then sla_warning
      else if str_includes (lower details) ''min remaining'' then sla_warning
      else if str_includes (lower details) ''pending'' \<and>
              str_includes (lower details) ''need to start'' then task_pending
      else if str_includes (lower details) ''pending status'' then task_pending
      else daily_reminder)"

definition sql_priority :: "string \<Rightarrow> string \<Rightarrow> priority" where
  "sql_priority action details =
     (if action = ''delay_reported'' \<or> action = ''overdue_notification_sent'' \<or>
         str_includes (lower details) ''overdue'' then critical
      else if action = ''completion_notification_sent'' then low
      else if action = ''sla_alert'' \<or> str_includes (lower details) ''starting in'' \<or>
              str_includes (lower details) ''sla warning'' \<or>
              str_includes (lower details) ''min remaining'' then high
      else if action = ''escalation_required'' then critical
      else if str_includes (lower details) ''pending'' \<and>
              str_includes (lower details) ''need to start'' then medium
      else if str_includes (lower details) ''pending status'' then medium
      else medium)"

definition classify :: "string \<Rightarrow> string \<Rightarrow> ntype \<times> priority" where
  "classify action details = (sql_type action details, sql_priority action details)"

subsection \<open>Regular expressions of the client\<close>

text \<open>
  The four regular expressions of \<open>transformDbNotifications\<close> are sequences of
  literals and digit groups \<open>(\d+)\<close>. A group is always followed by a blank, so the
  greedy group is the longest run of digits and no backtracking changes a match.
  \<open>parse_nat\<close> is \<open>parseInt\<close> on such a run.
\<close>

definition is_digit :: "char \<Rightarrow> bool" where
  "is_digit c = (let n = (of_char c :: nat) in 48 \<le> n \<and> n \<le> 57)"

definition digit_val :: "char \<Rightarrow> nat" where
  "digit_val c = of_char c - 48"

definition parse_nat :: "string \<Rightarrow> nat" where
  "parse_nat ds = foldl (\<lambda>a c. 10 * a + digit_val c) 0 ds"

text \<open>A literal at the head of the input, with or without the flag \<open>i\<close>.\<close>

definition take_lit :: "bool \<Rightarrow> string \<Rightarrow> string \<Rightarrow> string option" where
  "take_lit ci p s =
     (if (if ci then starts_with (lower s) (lower p) else starts_with s p)
      then Some (drop (length p) s) else None)"

definition take_digits :: "string \<Rightarrow> (string \<times> string) option" where
  "take_digits s =
     (if takeWhile is_digit s = [] then None
      else Some (takeWhile is_digit s, dropWhile is_digit s))"

text \<open>A line terminator of JavaScript: LF, CR, U+2028 or U+2029 (in UTF-8).\<close>

fun has_line_terminator :: "string \<Rightarrow> bool" where
  "has_line_terminator [] = False"
| "has_line_terminator (c # cs) =
     (c = CHR 0x0A \<or> c = CHR 0x0D \<or>
      starts_with (c # cs) [CHR 0xE2, CHR 0x80, CHR 0xA8] \<or>
      starts_with (c # cs) [CHR 0xE2, CHR 0x80, CHR 0xA9] \<or>
      has_line_terminator cs)"

text \<open>
  The leftmost match of a pattern matched at the head by \<open>m\<close>: the text before the
  match and what \<open>m\<close> returns.
\<close>

fun find_first :: "(string \<Rightarrow> 'a option) \<Rightarrow> string \<Rightarrow> (string \<times> 'a) option" where
  "find_first m [] = (case m [] of Some r \<Rightarrow> Some ([], r) | None \<Rightarrow> None)"
| "find_first m (c # cs) =
     (case m (c # cs) of
        Some r \<Rightarrow> Some ([], r)
      | None \<Rightarrow> (case find_first m cs of Some (p, r) \<Rightarrow> Some (c # p, r) | None \<Rightarrow> None))"

text \<open>
  \<open>/overdue by (\d+) min/i\<close>: the digits. (The second alternative of the source,
  \<open>/overdue by (\d+) minutes?/i\<close>, matches nothing the first does not.)
\<close>

definition re_overdue_by :: "string \<Rightarrow> string option" where
  "re_overdue_by s =
     (case take_lit True ''overdue by '' s of
        None \<Rightarrow> None
      | Some s1 \<Rightarrow>
          (case take_digits s1 of
             None \<Rightarrow> None
           | Some (ds, s2) \<Rightarrow>
               (case take_lit True '' min'' s2 of None \<Rightarrow> None | Some s3 \<Rightarrow> Some ds)))"

text \<open>\<open>/overdue by (\d+) min \<bullet> (\d+) min ago/i\<close>: the text after the match.\<close>

definition re_overdue_ago :: "string \<Rightarrow> string option" where
  "re_overdue_ago s =
     (case take_lit True ''overdue by '' s of
        None \<Rightarrow> None
      | Some s1 \<Rightarrow>
          (case take_digits s1 of
             None \<Rightarrow> None
           | Some (ds, s2) \<Rightarrow>
               (case take_lit True ('' min '' @ bullet @ '' '') s2 of
                  None \<Rightarrow> None
                | Some s3 \<Rightarrow>
                    (case take_digits s3 of
                       None \<Rightarrow> None
                     | Some (ds', s4) \<Rightarrow> take_lit True '' min ago'' s4))))"

text \<open>\<open>/(\d+) min remaining/\<close>: the digits and the text after the match.\<close>

definition re_min_remaining :: "string \<Rightarrow> (string \<times> string) option" where
  "re_min_remaining s =
     (case take_digits s of
        None \<Rightarrow> None
      | Some (ds, s1) \<Rightarrow>
          (case take_lit False '' min remaining'' s1 of
             None \<Rightarrow> None
           | Some s2 \<Rightarrow> Some (ds, s2)))"

text \<open>
  \<open>/(\d+) min remaining(.*)$/\<close>: the second group, which must reach the end of the
  input without crossing a line terminator.
\<close>

definition re_min_remaining_tail :: "string \<Rightarrow> string option" where
  "re_min_remaining_tail s =
     (case re_min_remaining s of
        None \<Rightarrow> None
      | Some (ds, s2) \<Rightarrow> if has_line_terminator s2 then None else Some s2)"

subsection \<open>\<open>transformDbNotifications\<close>\<close>

text \<open>
  A row of \<open>GET /\<close> as the client receives it, and the notification it displays. A
  \<open>details\<close> that is \<open>null\<close> is the empty string (no test of the source tells them
  apart on the fields kept here); \<open>created_at\<close> is the instant \<open>new Date\<close> reads, in
  milliseconds. Of the displayed notification the fields derived from the event and the
  clock are kept; \<open>title\<close> and the names copied from the row are left out.
\<close>

record db_notification =
  n_id :: int
  n_task_id :: int
  n_action :: string
  n_details :: string
  n_created_at :: "int option"
  n_priority :: "priority option"
  n_read :: bool

record members =
  m_assigned_to :: string
  m_reporting_managers :: "string list"
  m_escalation_managers :: "string list"
  m_members_list :: "string list"

record notification =
  fn_id :: int
  fn_type :: ntype
  fn_message :: string
  fn_assigned_to :: string
  fn_reporting_managers :: "string list"
  fn_escalation_managers :: "string list"
  fn_priority :: priority
  fn_read :: bool
  fn_created_at :: "int option"
  fn_action_required :: bool
  fn_delay_reason :: "string option"
  fn_sla_remaining :: "string option"
  fn_overdue_minutes :: "int option"
  fn_members_list :: "string list"

definition getMembersForTask :: "int \<Rightarrow> members" where
  "getMembersForTask taskId =
     (if taskId = 1 then
        \<lparr> m_assigned_to = ''John Durairaj'',
          m_reporting_managers = [''Albert Kumar'', ''Hari Prasad''],
          m_escalation_managers = [''Sarah Wilson'', ''Mike Johnson''],
          m_members_list = [''John Durairaj'', ''Albert Kumar'', ''Hari Prasad'',
                            ''Sarah Wilson'', ''Mike Johnson''] \<rparr>
      else if taskId = 2 then
        \<lparr> m_assigned_to = ''Maria Garcia'',
          m_reporting_managers = [''Robert Chen''],
          m_escalation_managers = [''David Lee''],
          m_members_list = [''Maria Garcia'', ''Robert Chen'', ''David Lee''] \<rparr>
      else if taskId = 3 then
        \<lparr> m_assigned_to = ''Alex Thompson'',
          m_reporting_managers = [''Jennifer Smith'', ''Mark Davis''],
          m_escalation_managers = [''Lisa Brown''],
          m_members_list = [''Alex Thompson'', ''Jennifer Smith'', ''Mark Davis'',
                            ''Lisa Brown''] \<rparr>
      else if taskId = 4 then
        \<lparr> m_assigned_to = ''Test User'',
          m_reporting_managers = [''Manager One'', ''Manager Two''],
          m_escalation_managers = [''Escalation Manager''],
          m_members_list = [''Test User'', ''Manager One'', ''Manager Two'',
                            ''Escalation Manager''] \<rparr>
      else if taskId = 5 \<or> taskId = 6 then
        \<lparr> m_assigned_to = ''Maria Garcia'',
          m_reporting_managers = [''Robert Chen''],
          m_escalation_managers = [''Sarah Wilson''],
          m_members_list = [''Maria Garcia'', ''Robert Chen'', ''Sarah Wilson''] \<rparr>
      else if taskId = 16 then
        \<lparr> m_assigned_to = ''Sanjay Kumar'',
          m_reporting_managers = [''Sarumathi Manickam'', ''Vishnu Vardhan''],
          m_escalation_managers = [''Harini NL'', ''Vishal S''],
          m_members_list = [''Sanjay Kumar'', ''Mugundhan Selvam'', ''Sarumathi Manickam'',
                            ''Vishnu Vardhan'', ''Harini NL'', ''Vishal S''] \<rparr>
      else
        \<lparr> m_assigned_to = ''Unassigned'',
          m_reporting_managers = [],
          m_escalation_managers = [],
          m_members_list = [] \<rparr>)"

text \<open>
  The first block: the overdue minutes read from the detail, and for a stored overdue
  event their live value. It yields \<open>realTimeDetails\<close> and \<open>overdueMinutes\<close>. The
  guard \<open>overdueMinutes && \<dots>\<close> is false for a missing match and for 0.
\<close>

definition overdue_block :: "int option \<Rightarrow> db_notification \<Rightarrow> string \<times> int option" where
  "overdue_block currentTime dbNotif =
     (let details = n_details dbNotif;
          overdueMinutes =
            (case find_first re_overdue_by details of
               None \<Rightarrow> None
             | Some (before, ds) \<Rightarrow> Some (int (parse_nat ds)))
      in case (overdueMinutes, currentTime, n_created_at dbNotif) of
           (Some om, Some ct, Some notificationTime) \<Rightarrow>
             if om \<noteq> 0 \<and> n_action dbNotif = ''overdue_notification_sent'' then
               (let timeSinceNotificationMs = ct - notificationTime;
                    minutesSinceNotification = timeSinceNotificationMs div 60000;
                    currentOverdueMinutes = om + minutesSinceNotification;
                    totalTimeAgo = timeSinceNotificationMs div 60000 + 2;
                    replacement = ''Overdue by '' @ show_int currentOverdueMinutes @ '' min '' @
                                  bullet @ '' '' @ show_int totalTimeAgo @ '' min ago''
                in ((case find_first re_overdue_ago details of
                       None \<Rightarrow> details
                     | Some (before, after) \<Rightarrow> before @ replacement @ after),
                    Some currentOverdueMinutes))
             else (details, overdueMinutes)
         | _ \<Rightarrow> (details, overdueMinutes))"

text \<open>
  The second block: the live countdown of a warning. \<open>exactRemainingMinutes\<close> of the
  source is \<open>originalMinutes - timeDiffMs / 60000\<close>; it is held here as
  \<open>exactRemainingMs\<close>, that number times 60000, so its sign, \<open>Math.ceil\<close> and
  \<open>Math.floor\<close> are integer operations. The block yields \<open>realTimeDetails\<close>,
  \<open>realTimeSlaRemaining\<close> and \<open>isExpiredSLA\<close>, or nothing when it does not run.
\<close>

definition warning_block ::
    "int option \<Rightarrow> db_notification \<Rightarrow> (string \<times> string \<times> bool) option" where
  "warning_block currentTime dbNotif =
     (let details = n_details dbNotif
      in case currentTime of
           None \<Rightarrow> None
         | Some ct \<Rightarrow>
             if str_includes details ''SLA Warning - '' \<and> str_includes details ''min remaining'' then
               (case (find_first re_min_remaining details, n_created_at dbNotif) of
                  (Some (before, ds, after), Some notificationTime) \<Rightarrow>
                    (let originalMinutes = int (parse_nat ds);
                         timeDiffMs = ct - notificationTime;
                         exactRemainingMs = originalMinutes * 60000 - timeDiffMs;
                         currentRemainingMinutes = max 0 (- ((- exactRemainingMs) div 60000))
                     in if exactRemainingMs \<le> 0 then
                          (let overdueMinutesFromSLA = abs exactRemainingMs div 60000
                           in Some (''Overdue by '' @ show_int overdueMinutesFromSLA @ '' min '' @
                                      bullet @ '' '' @ show_int (timeDiffMs div 60000) @ '' min ago'',
                                    ''Overdue by '' @ show_int overdueMinutesFromSLA @ '' min'',
                                    True))
                        else
                          Some ((case find_first re_min_remaining_tail details of
                                   None \<Rightarrow> details
                                 | Some (before', tail) \<Rightarrow>
                                     before' @ show_int currentRemainingMinutes @
                                     '' min remaining'' @ tail),
                                show_int currentRemainingMinutes @ '' min remaining'',
                                False))
                | _ \<Rightarrow> None)
             else None)"

text \<open>The type of the displayed notification.\<close>

definition derive_type :: "bool \<Rightarrow> db_notification \<Rightarrow> ntype" where
  "derive_type isExpiredSLA dbNotif =
     (let action = n_action dbNotif; details = n_details dbNotif
      in if isExpiredSLA then sla_overdue
         else if action = ''overdue_notification_sent'' \<or>
                 str_includes (lower details) ''overdue'' \<or>
                 (action = ''task_status_changed'' \<and> str_includes (lower details) ''overdue'')
           then sla_overdue
         else if action = ''sla_alert'' \<or> action = ''sla_warning'' \<or>
                 str_includes details ''starting in'' \<or>
                 str_includes details ''sla warning'' \<or>
                 str_includes details ''min remaining''
           then sla_warning
         else if action = ''escalation_required'' then escalation
         else if (str_includes (lower details) ''pending'' \<and>
                  str_includes (lower details) ''need to start'') \<or>
                 str_includes (lower details) ''pending status''
           then task_pending
         else daily_reminder)"

definition transform :: "int option \<Rightarrow> db_notification \<Rightarrow> notification" where
  "transform currentTime dbNotif =
     (let (details1, overdueMinutes) = overdue_block currentTime dbNotif;
          warning = warning_block currentTime dbNotif;
          realTimeDetails = (case warning of None \<Rightarrow> details1 | Some (d, r, e) \<Rightarrow> d);
          realTimeSlaRemaining = (case warning of None \<Rightarrow> None | Some (d, r, e) \<Rightarrow> Some r);
          isExpiredSLA = (case warning of None \<Rightarrow> False | Some (d, r, e) \<Rightarrow> e);
          notificationType = derive_type isExpiredSLA dbNotif;
          members = getMembersForTask (n_task_id dbNotif);
          overdueTruthy = (case overdueMinutes of None \<Rightarrow> False | Some om \<Rightarrow> om \<noteq> 0)
      in \<lparr> fn_id = n_id dbNotif,
           fn_type = notificationType,
           fn_message = realTimeDetails,
           fn_assigned_to = m_assigned_to members,
           fn_reporting_managers = m_reporting_managers members,
           fn_escalation_managers = m_escalation_managers members,
           fn_priority =
             (if overdueTruthy \<or> isExpiredSLA then critical
              else (case n_priority dbNotif of None \<Rightarrow> medium | Some p \<Rightarrow> p)),
           fn_read = n_read dbNotif,
           fn_created_at = n_created_at dbNotif,
           fn_action_required =
             (notificationType = sla_overdue \<or> notificationType = escalation \<or> isExpiredSLA \<or>
              (notificationType = sla_warning \<and>
               (str_includes (n_details dbNotif) ''min remaining'' \<or>
                str_includes (n_details dbNotif) ''need to start''))),
           fn_delay_reason =
             (if n_action dbNotif = ''delay_reported'' then Some ''Process delayed'' else None),
           fn_sla_remaining =
             (case realTimeSlaRemaining of
                Some r \<Rightarrow> Some r
              | None \<Rightarrow>
                  (case overdueMinutes of
                     None \<Rightarrow> None
                   | Some om \<Rightarrow>
                       if om \<noteq> 0 then Some (''Overdue by '' @ show_int om @ '' min'') else None)),
           fn_overdue_minutes = overdueMinutes,
           fn_members_list = m_members_list members \<rparr>)"

definition transformDbNotifications :: "db_notification list \<Rightarrow> int option \<Rightarrow> notification list" where
  "transformDbNotifications dbNotifications currentTime =
     map (transform currentTime) dbNotifications"

text \<open>
  The guard of the page around the line ``Escalation Managers'', inside the guard of the
  members box.
\<close>

definition shows_escalation_managers :: "notification \<Rightarrow> bool" where
  "shows_escalation_managers n =
     (fn_members_list n \<noteq> [] \<and>
      fn_type n = sla_overdue \<and> fn_escalation_managers n \<noteq> [])"

text \<open>Stored events in the two formats the server writes.\<close>

definition warning_event :: "nat \<Rightarrow> string \<Rightarrow> int \<Rightarrow> db_notification" where
  "warning_event R suffix t0 =
     \<lparr> n_id = 1, n_task_id = 16, n_action = ''sla_alert'',
       n_details = ''SLA Warning - '' @ show_nat R @ '' min remaining'' @ suffix,
       n_created_at = Some t0, n_priority = Some high, n_read = False \<rparr>"


definition alert_with_overdue_detail :: db_notification where
  "alert_with_overdue_detail =
     \<lparr> n_id = 4, n_task_id = 16, n_action = ''sla_alert'',
       n_details = ''Task overdue by 5 min'',
       n_created_at = Some 0, n_priority = Some critical, n_read = False \<rparr>"

definition escalation_event :: db_notification where
  "escalation_event =
     \<lparr> n_id = 3, n_task_id = 1, n_action = ''escalation_required'',
       n_details = ''Multiple subtasks need attention'',
       n_created_at = Some 0, n_priority = Some critical, n_read = False \<rparr>"

subsection \<open>\<open>GET /\<close> without the database\<close>

text \<open>
  The three mock notifications, built when the module loads (at the instant
  \<open>loaded\<close>, in milliseconds).
\<close>

record mock_notification =
  mk_id :: string
  mk_type :: string
  mk_title :: string
  mk_description :: string
  mk_user_id :: int
  mk_client_id :: int
  mk_client_name :: string
  mk_entity_type :: string
  mk_entity_id :: string
  mk_priority :: string
  mk_read :: bool
  mk_created_at :: int
  mk_action_url :: string

definition mockNotifications :: "int \<Rightarrow> mock_notification list" where
  "mockNotifications loaded =
     [\<lparr> mk_id = ''1'', mk_type = ''overdue'',
        mk_title = ''Overdue: Client Onboarding - Step 1'',
        mk_description = ''Initial Contact for 'Acme Corp' is 2 days overdue. Action required.'',
        mk_user_id = 1, mk_client_id = 1, mk_client_name = ''Acme Corp'',
        mk_entity_type = ''task'', mk_entity_id = ''1'', mk_priority = ''high'',
        mk_read = False, mk_created_at = loaded - 2 * 60 * 60 * 1000,
        mk_action_url = ''/leads/1'' \<rparr>,
      \<lparr> mk_id = ''2'', mk_type = ''followup'',
        mk_title = ''New Follow-up: Project Alpha'',
        mk_description =
          ''A new follow-up note has been added to 'Project Alpha' by Jane Smith.'',
        mk_user_id = 1, mk_client_id = 2, mk_client_name = ''Beta Corp'',
        mk_entity_type = ''lead'', mk_entity_id = ''2'', mk_priority = ''medium'',
        mk_read = False, mk_created_at = loaded - 24 * 60 * 60 * 1000,
        mk_action_url = ''/leads/2'' \<rparr>,
      \<lparr> mk_id = ''3'', mk_type = ''completed'',
        mk_title = ''Onboarding Complete: Global Solutions'',
        mk_description =
          ''Client 'Global Solutions' has successfully completed their onboarding process.'',
        mk_user_id = 1, mk_client_id = 3, mk_client_name = ''Global Solutions'',
        mk_entity_type = ''client'', mk_entity_id = ''3'', mk_priority = ''low'',
        mk_read = True, mk_created_at = loaded - 5 * 24 * 60 * 60 * 1000,
        mk_action_url = ''/clients/3'' \<rparr>]"

text \<open>
  The query of a request, after \<open>parseInt\<close>: a number or \<open>NaN\<close>. \<open>q_user_id\<close> and
  \<open>q_type\<close> are \<open>None\<close> when the parameter is absent or empty (the tests \<open>if (user_id)\<close>
  and \<open>if (type)\<close>), \<open>q_read\<close> when it is \<open>undefined\<close>; \<open>q_limit\<close> and \<open>q_offset\<close>
  are \<open>parseInt\<close> of the parameter or of its default, 50 and 0.
\<close>

datatype js_number = NaN | Num int

record notifications_query =
  q_user_id :: "js_number option"
  q_type :: "string option"
  q_read :: "string option"
  q_limit :: js_number
  q_offset :: js_number

record pagination =
  pg_total :: nat
  pg_limit :: js_number
  pg_offset :: js_number
  pg_has_more :: bool

record notifications_response =
  rs_notifications :: "mock_notification list"
  rs_pagination :: pagination
  rs_unread_count :: nat

definition js_add :: "js_number \<Rightarrow> js_number \<Rightarrow> js_number" where
  "js_add a b = (case (a, b) of (Num x, Num y) \<Rightarrow> Num (x + y) | _ \<Rightarrow> NaN)"

definition js_less_nat :: "js_number \<Rightarrow> nat \<Rightarrow> bool" where
  "js_less_nat a n = (case a of Num x \<Rightarrow> x < int n | NaN \<Rightarrow> False)"

text \<open>\<open>a || 50\<close> for a number: 50 replaces \<open>NaN\<close> and 0.\<close>

definition js_or :: "js_number \<Rightarrow> int \<Rightarrow> js_number" where
  "js_or a d = (case a of NaN \<Rightarrow> Num d | Num x \<Rightarrow> if x = 0 then Num d else Num x)"

text \<open>
  \<open>Array.prototype.slice\<close>: \<open>NaN\<close> is 0, a negative index counts from the end, and
  both ends are clamped to the array.
\<close>

definition js_index :: "nat \<Rightarrow> js_number \<Rightarrow> nat" where
  "js_index len a =
     (let r = (case a of NaN \<Rightarrow> 0 | Num x \<Rightarrow> x)
      in if r < 0 then nat (max (int len + r) 0) else nat (min r (int len)))"

definition js_slice :: "'a list \<Rightarrow> js_number \<Rightarrow> js_number \<Rightarrow> 'a list" where
  "js_slice xs start stop =
     (let k = js_index (length xs) start; final = js_index (length xs) stop
      in take (final - k) (drop k xs))"

text \<open>
  The two ways the handler answers without the database: \<open>isDatabaseAvailable\<close> finds
  it unreachable, and the handler filters and pages the mock notifications; or a query
  fails after the probe, and the \<open>catch\<close> block sends them all.
\<close>

datatype store_failure = ProbeFails | QueryFails

definition get_notifications_degraded ::
    "int \<Rightarrow> store_failure \<Rightarrow> notifications_query \<Rightarrow> notifications_response" where
  "get_notifications_degraded loaded failure q =
     (case failure of
        ProbeFails \<Rightarrow>
          (let f1 = (case q_user_id q of
                       None \<Rightarrow> mockNotifications loaded
                     | Some u \<Rightarrow> filter (\<lambda>n. Num (mk_user_id n) = u) (mockNotifications loaded));
               f2 = (case q_type q of
                       None \<Rightarrow> f1
                     | Some t \<Rightarrow> filter (\<lambda>n. mk_type n = t) f1);
               filteredNotifications =
                    (case q_read q of
                       None \<Rightarrow> f2
                     | Some r \<Rightarrow> filter (\<lambda>n. mk_read n = (r = ''true'')) f2);
               total = length filteredNotifications;
               unreadCount = length (filter (\<lambda>n. \<not> mk_read n) filteredNotifications);
               limitNum = q_limit q;
               offsetNum = q_offset q
           in \<lparr> rs_notifications =
                  js_slice filteredNotifications offsetNum (js_add offsetNum limitNum),
                rs_pagination =
                  \<lparr> pg_total = total, pg_limit = limitNum, pg_offset = offsetNum,
                    pg_has_more = js_less_nat (js_add offsetNum limitNum) total \<rparr>,
                rs_unread_count = unreadCount \<rparr>)
      | QueryFails \<Rightarrow>
          \<lparr> rs_notifications = mockNotifications loaded,
            rs_pagination =
              \<lparr> pg_total = length (mockNotifications loaded),
                pg_limit = js_or (q_limit q) 50, pg_offset = js_or (q_offset q) 0,
                pg_has_more = False \<rparr>,
            rs_unread_count = length (filter (\<lambda>n. \<not> mk_read n) (mockNotifications loaded)) \<rparr>)"

text \<open>A request without parameters.\<close>

definition default_query :: notifications_query where
  "default_query =
     \<lparr> q_user_id = None, q_type = None, q_read = None, q_limit = Num 50, q_offset = Num 0 \<rparr>"

text \<open>
  The three filters of the fallback as one condition on a mock notification: each
  applies when its parameter is present.
\<close>

definition passes_filters :: "notifications_query \<Rightarrow> mock_notification \<Rightarrow> bool" where
  "passes_filters q n =
     ((case q_user_id q of None \<Rightarrow> True | Some u \<Rightarrow> Num (mk_user_id n) = u) \<and>
      (case q_type q of None \<Rightarrow> True | Some t \<Rightarrow> mk_type n = t) \<and>
      (case q_read q of None \<Rightarrow> True | Some r \<Rightarrow> mk_read n = (r = ''true'')))"

subsection \<open>The scenario of the specification\<close>

text \<open>
  A subtask scheduled at 16:00 with a budget of 60 minutes, its task, and instants of one
  day (the day starting at instant 0).
\<close>

definition subtask_1600 :: subtask where
  "subtask_1600 =
     \<lparr> st_id = 29, st_task_id = 16, st_name = ''Check'', st_assigned_to = None,
       st_status = ''pending'', start_time = Some 57600000000, auto_notify = Some True,
       started_at = Some 57600000, sla_hours = 1, sla_minutes = 0 \<rparr>"

definition subtask_1700 :: subtask where
  "subtask_1700 = subtask_1600\<lparr>start_time := Some 61200000000\<rparr>"

definition task_16 :: task where
  "task_16 =
     \<lparr> t_id = 16, task_name = ''Check'', t_assigned_to = Some ''Sanjay Kumar'',
       is_active = Some True \<rparr>"

definition at_16_30 :: int where
  "at_16_30 = 59400000000"

definition at_16_46 :: int where
  "at_16_46 = 60360000000"

definition at_16_50 :: int where
  "at_16_50 = 60600000000"

definition at_17_05 :: int where
  "at_17_05 = 61500000000"

section \<open>Properties\<close>

lemmas time_defs =
  current_time_def current_date_def usecs_per_day_def usecs_per_minute_def
  interval_15_minutes_def interval_1_hour_def time_pl_interval_def time_mi_interval_def

lemmas scenario_defs =
  subtask_1600_def subtask_1700_def task_16_def
  at_16_30_def at_16_46_def at_16_50_def at_17_05_def

lemmas sql_defs =
  warning_selected_def overdue_selected_def selected_def warning_where_def overdue_where_def
  monitored_def recent_activity_def

subsection \<open>Time of day\<close>

lemma now_split: "current_date now + current_time now = now"
  by (simp add: current_date_def current_time_def)

lemma current_time_range: "0 \<le> current_time now \<and> current_time now < usecs_per_day"
  by (simp add: current_time_def usecs_per_day_def)

lemma no_wrap_pl:
  "current_time now + interval_15_minutes < usecs_per_day \<Longrightarrow>
   time_pl_interval (current_time now) interval_15_minutes = current_time now + interval_15_minutes"
  using current_time_range [of now]
  by (simp add: time_pl_interval_def interval_15_minutes_def usecs_per_minute_def)

lemma no_wrap_mi:
  "interval_15_minutes \<le> current_time now \<Longrightarrow>
   time_mi_interval (current_time now) interval_15_minutes = current_time now - interval_15_minutes"
  using current_time_range [of now]
  by (simp add: time_mi_interval_def interval_15_minutes_def usecs_per_minute_def)

lemma int_le_div_iff:
  fixes k :: int
  assumes "0 < k"
  shows "(n \<le> x div k) = (n * k \<le> x)"
proof
  assume "n \<le> x div k"
  then have "n * k \<le> (x div k) * k"
    using assms by (simp add: mult_right_mono)
  also have "\<dots> = x - x mod k"
    by (simp add: minus_mod_eq_div_mult)
  also have "\<dots> \<le> x"
    using assms by simp
  finally show "n * k \<le> x" .
next
  assume "n * k \<le> x"
  then have "(n * k) div k \<le> x div k"
    using assms by (rule zdiv_mono1)
  then show "n \<le> x div k"
    using assms by simp
qed

lemma int_div_less_iff:
  fixes k :: int
  assumes "0 < k"
  shows "(x div k < n) = (x < n * k)"
  using int_le_div_iff [OF assms, of n x] by linarith

subsection \<open>What the queries select\<close>

lemma set_selected:
  "set (selected cond subs tasks) =
     {(fs, s, ft). fs \<in> set subs \<and> start_time fs = Some s \<and> ft \<in> set tasks \<and> cond fs s ft}"
  by (auto simp: selected_def split: option.splits)

lemma selected_subtask_iff:
  "fs \<in> fst ` set (selected cond subs tasks) \<longleftrightarrow>
     fs \<in> set subs \<and> (\<exists>s ft. start_time fs = Some s \<and> ft \<in> set tasks \<and> cond fs s ft)"
  by (force simp: set_selected)

lemma service_overdue_iff:
  "(\<exists>m. checkSubtaskSLA n fs = SendOverdue m) \<longleftrightarrow>
     (case started_at fs of Some t \<Rightarrow> t | None \<Rightarrow> n) +
       sla_hours fs * 3600000 + sla_minutes fs * 60000 - n < 0"
proof -
  have neg: "(x div 60000 < 0) = (x < 0)" for x :: int
    using int_div_less_iff [of 60000 x 0] by simp
  show ?thesis
    by (auto simp: checkSubtaskSLA_def Let_def neg)
qed

lemma service_warning_iff:
  "(\<exists>m. checkSubtaskSLA n fs = SendWarning m) \<longleftrightarrow>
     60000 \<le> (case started_at fs of Some t \<Rightarrow> t | None \<Rightarrow> n) +
       sla_hours fs * 3600000 + sla_minutes fs * 60000 - n \<and>
     (case started_at fs of Some t \<Rightarrow> t | None \<Rightarrow> n) +
       sla_hours fs * 3600000 + sla_minutes fs * 60000 - n < 960000"
proof -
  have a: "(x div 60000 < 0) = (x < 0)" for x :: int
    using int_div_less_iff [of 60000 x 0] by simp
  have b: "(0 < x div 60000) = (60000 \<le> x)" for x :: int
    using int_le_div_iff [of 60000 1 x] by auto
  have c: "(x div 60000 \<le> 15) = (x < 960000)" for x :: int
    using int_div_less_iff [of 60000 x 16] by auto
  show ?thesis
    by (auto simp: checkSubtaskSLA_def Let_def a b c)
qed

subsection \<open>A call of the SQL function\<close>

text \<open>
  Claim C1. The claim asks that the evaluator, run at 16:46 and again at 16:50, leaves
  exactly one Warning event for a unit in its warning window. For a subtask due to start
  at 17:00 the warning query selects the unit at 16:46; the call of the function raises
  there, at 16:50, and at every instant on every table, so the handler issues no
  \<open>INSERT\<close> and no Warning event is written.
\<close>

theorem evaluator_raises_at_both_ticks:
  "map (st_id \<circ> fst) (warning_selected at_16_46 [subtask_1700] [task_16] []) = [29] \<and>
   auto_sync at_16_46 [subtask_1700] [task_16] [] = Inl undefined_function \<and>
   auto_sync at_16_50 [subtask_1700] [task_16] [] = Inl undefined_function \<and>
   check_subtask_sla_notifications now subs tasks log = Inl undefined_function \<and>
   auto_sync now subs tasks log = Inl undefined_function"
proof -
  have c: "check_subtask_sla_notifications t s k l = Inl undefined_function" for t s k l
    by (simp add: check_subtask_sla_notifications_def)
  have w: "map (st_id \<circ> fst) (warning_selected at_16_46 [subtask_1700] [task_16] []) = [29]"
    by (simp add: sql_defs time_defs scenario_defs)
  from c w show ?thesis
    by (simp add: auto_sync_def)
qed

subsection \<open>When a unit is selected as overdue, and as due soon\<close>

text \<open>
  Claim C2, as amended. Away from the midnight wrap of \<open>current_time - 15 minutes\<close>, the
  overdue query of the SQL function selects a subtask that has \<open>auto_notify\<close> set, a
  \<open>start_time\<close>, status pending or in progress and an active parent task exactly when
  its \<open>start_time\<close> lies more than 15 minutes before the current time of day and no
  overdue event of the unit is inside the lookback; the SLA budget plays no part. The
  alert service calls its overdue sender exactly when the due time, \<open>started_at\<close> (or
  the current instant for a subtask not started) plus the budget, is strictly in the past.
  Whether a selected unit becomes an event is not part of the statement.
\<close>

theorem sla_overdue_selected_iff:
  assumes fs: "fs \<in> set subs" and ft: "ft \<in> set tasks"
    and mon: "monitored fs ft" and s: "start_time fs = Some s"
    and nowrap: "interval_15_minutes \<le> current_time now"
  shows "(fs \<in> fst ` set (overdue_selected now subs tasks log) \<longleftrightarrow>
          (s < current_time now - interval_15_minutes \<and>
           \<not> recent_activity now log fs ''overdue_notification_sent'')) \<and>
         ((\<exists>m. checkSubtaskSLA n fs = SendOverdue m) \<longleftrightarrow>
          (case started_at fs of Some t \<Rightarrow> t | None \<Rightarrow> n) +
            sla_hours fs * 3600000 + sla_minutes fs * 60000 - n < 0)"
proof
  have "fs \<in> fst ` set (overdue_selected now subs tasks log) \<longleftrightarrow>
      (\<exists>ft'. ft' \<in> set tasks \<and> overdue_where now log fs s ft')"
    using fs s by (simp add: overdue_selected_def selected_subtask_iff)
  also have "\<dots> \<longleftrightarrow> (s < current_time now - interval_15_minutes \<and>
      \<not> recent_activity now log fs ''overdue_notification_sent'')"
    using ft mon nowrap by (auto simp: overdue_where_def no_wrap_mi)
  finally show "fs \<in> fst ` set (overdue_selected now subs tasks log) \<longleftrightarrow>
      (s < current_time now - interval_15_minutes \<and>
       \<not> recent_activity now log fs ''overdue_notification_sent'')" .
  show "(\<exists>m. checkSubtaskSLA n fs = SendOverdue m) \<longleftrightarrow>
      (case started_at fs of Some t \<Rightarrow> t | None \<Rightarrow> n) +
        sla_hours fs * 3600000 + sla_minutes fs * 60000 - n < 0"
    by (rule service_overdue_iff)
qed

text \<open>
  The subtask scheduled and started at 16:00: the overdue query selects it at 16:30, and
  the alert service calls the overdue sender one millisecond after 17:00.
\<close>

theorem sla_overdue_selected_iff_witness:
  "subtask_1600 \<in> set [subtask_1600] \<and> task_16 \<in> set [task_16] \<and>
   monitored subtask_1600 task_16 \<and>
   start_time subtask_1600 = Some 57600000000 \<and>
   interval_15_minutes \<le> current_time at_16_30 \<and>
   subtask_1600 \<in> fst ` set (overdue_selected at_16_30 [subtask_1600] [task_16] []) \<and>
   (\<exists>m. checkSubtaskSLA 61200001 subtask_1600 = SendOverdue m)"
proof -
  have h2: "subtask_1600 \<in> set [subtask_1600]" "task_16 \<in> set [task_16]" by simp_all
  have h3: "monitored subtask_1600 task_16"
    by (simp add: monitored_def scenario_defs)
  have h4: "start_time subtask_1600 = Some 57600000000"
    by (simp add: scenario_defs)
  have h5: "interval_15_minutes \<le> current_time at_16_30"
    by (simp add: time_defs scenario_defs)
  have c: "57600000000 < current_time at_16_30 - interval_15_minutes \<and>
      \<not> recent_activity at_16_30 [] subtask_1600 ''overdue_notification_sent''"
    by (simp add: time_defs scenario_defs recent_activity_def)
  have d: "(case started_at subtask_1600 of Some t \<Rightarrow> t | None \<Rightarrow> 61200001) +
      sla_hours subtask_1600 * 3600000 + sla_minutes subtask_1600 * 60000 - 61200001 < 0"
    by (simp add: scenario_defs)
  from sla_overdue_selected_iff [OF h2 h3 h4 h5, of "[]" 61200001] c d
  have "subtask_1600 \<in> fst ` set (overdue_selected at_16_30 [subtask_1600] [task_16] []) \<and>
      (\<exists>m. checkSubtaskSLA 61200001 subtask_1600 = SendOverdue m)"
    by blast
  with h3 h4 h5 show ?thesis by simp
qed

text \<open>
  The claim as stated fails in the scenario of the specification. At 16:30 the deadline
  \<open>scheduled_start + sla_budget\<close> is still 30 minutes away, and the overdue query
  already selects the unit. At 17:05, five minutes past that deadline, the handler gets
  an error from the function and writes no event. At 17:00 sharp, with no time
  remaining, the alert service calls no sender.
\<close>

theorem overdue_at_deadline_counterexample:
  "spec_remaining at_16_30 subtask_1600 = Some (30 * usecs_per_minute) \<and>
   map (st_id \<circ> fst) (overdue_selected at_16_30 [subtask_1600] [task_16] []) = [29] \<and>
   spec_remaining at_17_05 subtask_1600 = Some (- 5 * usecs_per_minute) \<and>
   auto_sync at_17_05 [subtask_1600] [task_16] [] = Inl undefined_function \<and>
   checkSubtaskSLA 61200000 subtask_1600 = NoAlert"
  by (simp add: spec_remaining_def spec_deadline_def sql_defs time_defs scenario_defs
      auto_sync_def check_subtask_sla_notifications_def checkSubtaskSLA_def)

text \<open>
  Claim C3, as amended. Away from the midnight wrap of \<open>current_time + 15 minutes\<close>, the
  warning query of the SQL function selects a subtask that has \<open>auto_notify\<close> set, a
  \<open>start_time\<close>, status pending or in progress and an active parent task exactly when
  its \<open>start_time\<close> is later than the current time of day by at most 15 minutes and no
  warning event of the unit is inside the lookback; the SLA budget plays no part. The
  alert service calls its warning sender exactly when the time up to the due time,
  \<open>started_at\<close> (or the current instant) plus the budget, is at least one minute and
  less than sixteen. Whether a selected unit becomes an event is not part of the
  statement.
\<close>

theorem sla_warning_selected_iff:
  assumes fs: "fs \<in> set subs" and ft: "ft \<in> set tasks"
    and mon: "monitored fs ft" and s: "start_time fs = Some s"
    and nowrap: "current_time now + interval_15_minutes < usecs_per_day"
  shows "(fs \<in> fst ` set (warning_selected now subs tasks log) \<longleftrightarrow>
          (0 < s - current_time now \<and> s - current_time now \<le> interval_15_minutes \<and>
           \<not> recent_activity now log fs ''sla_alert'')) \<and>
         ((\<exists>m. checkSubtaskSLA n fs = SendWarning m) \<longleftrightarrow>
          60000 \<le> (case started_at fs of Some t \<Rightarrow> t | None \<Rightarrow> n) +
            sla_hours fs * 3600000 + sla_minutes fs * 60000 - n \<and>
          (case started_at fs of Some t \<Rightarrow> t | None \<Rightarrow> n) +
            sla_hours fs * 3600000 + sla_minutes fs * 60000 - n < 960000)"
proof
  have "fs \<in> fst ` set (warning_selected now subs tasks log) \<longleftrightarrow>
      (\<exists>ft'. ft' \<in> set tasks \<and> warning_where now log fs s ft')"
    using fs s by (simp add: warning_selected_def selected_subtask_iff)
  also have "\<dots> \<longleftrightarrow> (0 < s - current_time now \<and> s - current_time now \<le> interval_15_minutes \<and>
      \<not> recent_activity now log fs ''sla_alert'')"
    using ft mon nowrap by (auto simp: warning_where_def no_wrap_pl)
  finally show "fs \<in> fst ` set (warning_selected now subs tasks log) \<longleftrightarrow>
      (0 < s - current_time now \<and> s - current_time now \<le> interval_15_minutes \<and>
       \<not> recent_activity now log fs ''sla_alert'')" .
  show "(\<exists>m. checkSubtaskSLA n fs = SendWarning m) \<longleftrightarrow>
      60000 \<le> (case started_at fs of Some t \<Rightarrow> t | None \<Rightarrow> n) +
        sla_hours fs * 3600000 + sla_minutes fs * 60000 - n \<and>
      (case started_at fs of Some t \<Rightarrow> t | None \<Rightarrow> n) +
        sla_hours fs * 3600000 + sla_minutes fs * 60000 - n < 960000"
    by (rule service_warning_iff)
qed

text \<open>
  A subtask due to start at 17:00 and started at 16:00 with a budget of one hour: at
  16:46 the warning query selects it and the alert service calls the warning sender.
\<close>

theorem sla_warning_selected_iff_witness:
  "subtask_1700 \<in> set [subtask_1700] \<and> task_16 \<in> set [task_16] \<and>
   monitored subtask_1700 task_16 \<and>
   start_time subtask_1700 = Some 61200000000 \<and>
   current_time at_16_46 + interval_15_minutes < usecs_per_day \<and>
   subtask_1700 \<in> fst ` set (warning_selected at_16_46 [subtask_1700] [task_16] []) \<and>
   (\<exists>m. checkSubtaskSLA 60360000 subtask_1700 = SendWarning m)"
proof -
  have h2: "subtask_1700 \<in> set [subtask_1700]" "task_16 \<in> set [task_16]" by simp_all
  have h3: "monitored subtask_1700 task_16"
    by (simp add: monitored_def scenario_defs)
  have h4: "start_time subtask_1700 = Some 61200000000"
    by (simp add: scenario_defs)
  have h5: "current_time at_16_46 + interval_15_minutes < usecs_per_day"
    by (simp add: time_defs scenario_defs)
  have c: "0 < 61200000000 - current_time at_16_46 \<and>
      61200000000 - current_time at_16_46 \<le> interval_15_minutes \<and>
      \<not> recent_activity at_16_46 [] subtask_1700 ''sla_alert''"
    by (simp add: time_defs scenario_defs recent_activity_def)
  have d: "60000 \<le> (case started_at subtask_1700 of Some t \<Rightarrow> t | None \<Rightarrow> 60360000) +
        sla_hours subtask_1700 * 3600000 + sla_minutes subtask_1700 * 60000 - 60360000 \<and>
      (case started_at subtask_1700 of Some t \<Rightarrow> t | None \<Rightarrow> 60360000) +
        sla_hours subtask_1700 * 3600000 + sla_minutes subtask_1700 * 60000 - 60360000 < 960000"
    by (simp add: scenario_defs)
  from sla_warning_selected_iff [OF h2 h3 h4 h5, of "[]" 60360000] c d
  have "subtask_1700 \<in> fst ` set (warning_selected at_16_46 [subtask_1700] [task_16] []) \<and>
      (\<exists>m. checkSubtaskSLA 60360000 subtask_1700 = SendWarning m)"
    by blast
  with h3 h4 h5 show ?thesis by simp
qed

text \<open>
  The claim as stated fails on its own example. For the subtask scheduled at 16:00 with a
  budget of 60 minutes, the tick at 16:46 is 14 minutes before the deadline of the
  specification: the warning query selects nothing, the overdue query selects the unit,
  and the handler gets an error from the function and writes no event. The alert
  service calls the warning sender with 15 minutes and a half remaining, and no sender
  with half a minute remaining.
\<close>

theorem warning_before_deadline_counterexample:
  "spec_remaining at_16_46 subtask_1600 = Some (14 * usecs_per_minute) \<and>
   warning_selected at_16_46 [subtask_1600] [task_16] [] = [] \<and>
   map (st_id \<circ> fst) (overdue_selected at_16_46 [subtask_1600] [task_16] []) = [29] \<and>
   auto_sync at_16_46 [subtask_1600] [task_16] [] = Inl undefined_function \<and>
   checkSubtaskSLA 60270000 subtask_1600 = SendWarning 15 \<and>
   checkSubtaskSLA 61170000 subtask_1600 = NoAlert"
  by (simp add: spec_remaining_def spec_deadline_def sql_defs time_defs scenario_defs
      auto_sync_def check_subtask_sla_notifications_def checkSubtaskSLA_def)

subsection \<open>The two evaluators\<close>

lemma sql_phase_eq:
  assumes "monitored fs ft" "start_time fs = Some s"
    and "interval_15_minutes \<le> current_time now"
    and "current_time now + interval_15_minutes < usecs_per_day"
  shows "sql_phase now fs ft =
     (if 0 < s - current_time now \<and> s - current_time now \<le> interval_15_minutes then Warning
      else if s - current_time now < - interval_15_minutes then Overdue
      else NoPhase)"
  using assms
  by (auto simp: sql_phase_def warning_selected_def overdue_selected_def selected_def
      warning_where_def overdue_where_def recent_activity_def no_wrap_pl no_wrap_mi)

lemma service_phase_eq:
  assumes "st_status st = ''pending'' \<or> st_status st = ''in_progress''"
  shows "service_phase n st =
     (let r = (case started_at st of Some t \<Rightarrow> t | None \<Rightarrow> n) +
              sla_hours st * 3600000 + sla_minutes st * 60000 - n
      in if r < 0 then Overdue else if 60000 \<le> r \<and> r < 960000 then Warning else NoPhase)"
proof -
  have a: "(x div 60000 < 0) = (x < 0)" for x :: int
    using int_div_less_iff [of 60000 x 0] by simp
  have b: "(0 < x div 60000) = (60000 \<le> x)" for x :: int
    using int_le_div_iff [of 60000 1 x] by auto
  have c: "(x div 60000 \<le> 15) = (x < 960000)" for x :: int
    using int_div_less_iff [of 60000 x 16] by auto
  show ?thesis using assms
    by (auto simp: service_phase_def processTaskAlerts_def checkSubtaskSLA_def Let_def a b c)
qed

text \<open>
  Claim C10, as amended. The queries of the SQL function decide from \<open>start_time\<close>
  alone, and only for a subtask with \<open>auto_notify\<close> set whose parent task is active; the
  alert service decides from \<open>started_at\<close> plus the budget and reads neither
  \<open>auto_notify\<close> nor the parent task. Take a subtask of the task with \<open>auto_notify\<close>
  set, status pending or in progress, a \<open>start_time\<close> and a \<open>started_at\<close>, whose
  parent task is active. When both sides measure the same remaining time \<open>r\<close> to their
  reference instant (and the time of day is away from the midnight wrap), the phase
  whose query selects the subtask is the phase of the sender the service calls exactly
  when \<open>r\<close> is outside three bands: from 15 minutes past the instant up to it, where
  only the service decides Overdue; the first minute before it, where only the warning
  query selects; and between 15 and 16 minutes before it, where only the service decides
  Warning. Whether the function returns what its queries select is not part of the
  statement.
\<close>

theorem evaluators_agree_iff:
  assumes tid: "st_task_id fs = t_id ft" and an: "auto_notify fs = Some True"
    and st: "st_status fs = ''pending'' \<or> st_status fs = ''in_progress''"
    and act: "is_active ft = Some True"
    and s: "start_time fs = Some s" and a: "started_at fs = Some a"
    and lo: "interval_15_minutes \<le> current_time now"
    and hi: "current_time now + interval_15_minutes < usecs_per_day"
    and same: "s - current_time now =
               1000 * (a + sla_hours fs * 3600000 + sla_minutes fs * 60000 - now_ms)"
  shows "sql_phase now fs ft = service_phase now_ms fs \<longleftrightarrow>
         \<not> (- interval_15_minutes \<le> s - current_time now \<and> s - current_time now < 0) \<and>
         \<not> (0 < s - current_time now \<and> s - current_time now < usecs_per_minute) \<and>
         \<not> (interval_15_minutes < s - current_time now \<and>
            s - current_time now < 16 * usecs_per_minute)"
proof -
  from tid an st act have mon: "monitored fs ft"
    by (simp add: monitored_def)
  show ?thesis
    unfolding sql_phase_eq [OF mon s lo hi] service_phase_eq [OF st] a same
    by (simp add: Let_def interval_15_minutes_def usecs_per_minute_def)
qed

text \<open>
  A subtask due to start at 17:00 that was started at 16:00 with a budget of one hour:
  at 16:46 both sides see 14 minutes and decide Warning.
\<close>

theorem evaluators_agree_iff_witness:
  "st_task_id subtask_1700 = t_id task_16 \<and> auto_notify subtask_1700 = Some True \<and>
   (st_status subtask_1700 = ''pending'' \<or> st_status subtask_1700 = ''in_progress'') \<and>
   is_active task_16 = Some True \<and>
   start_time subtask_1700 = Some 61200000000 \<and>
   started_at subtask_1700 = Some 57600000 \<and>
   interval_15_minutes \<le> current_time at_16_46 \<and>
   current_time at_16_46 + interval_15_minutes < usecs_per_day \<and>
   61200000000 - current_time at_16_46 =
     1000 * (57600000 + sla_hours subtask_1700 * 3600000 + sla_minutes subtask_1700 * 60000 - 60360000) \<and>
   sql_phase at_16_46 subtask_1700 task_16 = service_phase 60360000 subtask_1700 \<and>
   service_phase 60360000 subtask_1700 = Warning"
proof -
  have h1: "st_task_id subtask_1700 = t_id task_16" "auto_notify subtask_1700 = Some True"
    "st_status subtask_1700 = ''pending'' \<or> st_status subtask_1700 = ''in_progress''"
    "is_active task_16 = Some True"
    by (simp_all add: scenario_defs)
  have h2: "start_time subtask_1700 = Some 61200000000" "started_at subtask_1700 = Some 57600000"
    by (simp_all add: scenario_defs)
  have h3: "interval_15_minutes \<le> current_time at_16_46"
    "current_time at_16_46 + interval_15_minutes < usecs_per_day"
    by (simp_all add: time_defs scenario_defs)
  have h4: "61200000000 - current_time at_16_46 =
     1000 * (57600000 + sla_hours subtask_1700 * 3600000 + sla_minutes subtask_1700 * 60000 - 60360000)"
    by (simp add: time_defs scenario_defs)
  have r: "61200000000 - current_time at_16_46 = 840000000"
    by (simp add: time_defs scenario_defs)
  have w: "service_phase 60360000 subtask_1700 = Warning"
    by (simp add: service_phase_def processTaskAlerts_def checkSubtaskSLA_def scenario_defs)
  from evaluators_agree_iff [OF h1 h2 h3 h4]
  have "sql_phase at_16_46 subtask_1700 task_16 = service_phase 60360000 subtask_1700"
    by (simp add: r interval_15_minutes_def usecs_per_minute_def)
  with h1 h2 h3 h4 w show ?thesis by blast
qed

text \<open>
  The claim as stated fails on one subtask at one instant. Scheduled and started at
  16:00 with a budget of 60 minutes, at 16:46 the unit is selected by the overdue query
  while the alert service decides Warning; the call of the SQL function reports no phase
  at all, it raises. And with \<open>auto_notify\<close> off, a subtask due to start at 17:00 is
  selected by neither query while the service still decides Warning.
\<close>

theorem evaluators_disagree_counterexample:
  "sql_phase at_16_46 subtask_1600 task_16 = Overdue \<and>
   service_phase 60360000 subtask_1600 = Warning \<and>
   check_subtask_sla_notifications at_16_46 [subtask_1600] [task_16] [] = Inl undefined_function \<and>
   sql_phase at_16_46 (subtask_1700\<lparr>auto_notify := Some False\<rparr>) task_16 = NoPhase \<and>
   service_phase 60360000 (subtask_1700\<lparr>auto_notify := Some False\<rparr>) = Warning"
  by (simp add: sql_phase_def service_phase_def processTaskAlerts_def checkSubtaskSLA_def
      check_subtask_sla_notifications_def sql_defs time_defs scenario_defs)

subsection \<open>Classification on the server\<close>

text \<open>
  Claim C7, as amended. Whatever the detail, an event tagged \<open>delay_reported\<close> gets
  type \<open>task_delayed\<close> and priority \<open>critical\<close>: the tag stands in the first, critical
  branch of the priority \<open>CASE\<close>.
\<close>

theorem classify_delay_reported:
  "classify ''delay_reported'' details = (task_delayed, critical)"
  by (simp add: classify_def sql_type_def sql_priority_def)

theorem delay_reported_priority_counterexample:
  "snd (classify ''delay_reported'' ''Process delayed'') = critical \<and> critical \<noteq> medium"
  by (simp add: classify_def sql_priority_def)


subsection \<open>Digits and patterns\<close>

lemma digit_char_is_digit: "d < 10 \<Longrightarrow> is_digit (digit_char d)"
  by (simp add: is_digit_def digit_char_def)

lemma digit_val_digit_char: "d < 10 \<Longrightarrow> digit_val (digit_char d) = d"
  by (simp add: digit_val_def digit_char_def)

lemma show_nat_digits: "c \<in> set (show_nat n) \<Longrightarrow> is_digit c"
proof (induction n arbitrary: c rule: show_nat.induct)
  case (1 n)
  show ?case
  proof (cases "n < 10")
    case True
    with "1.prems" show ?thesis
      by (simp add: show_nat.simps [of n] digit_char_is_digit)
  next
    case False
    with "1.prems" "1.IH" show ?thesis
      by (auto simp: show_nat.simps [of n] digit_char_is_digit)
  qed
qed

lemma show_nat_nonempty: "show_nat n \<noteq> []"
  by (subst show_nat.simps) simp

lemma parse_nat_snoc: "parse_nat (ds @ [c]) = 10 * parse_nat ds + digit_val c"
  by (simp add: parse_nat_def)

lemma parse_show_nat: "parse_nat (show_nat n) = n"
proof (induction n rule: show_nat.induct)
  case (1 n)
  show ?case
  proof (cases "n < 10")
    case True
    then show ?thesis
      by (simp add: show_nat.simps [of n] parse_nat_def digit_val_digit_char)
  next
    case False
    with "1.IH" show ?thesis
      by (simp add: show_nat.simps [of n] parse_nat_snoc digit_val_digit_char)
  qed
qed

lemma take_digits_show_nat:
  assumes "rest = [] \<or> \<not> is_digit (hd rest)"
  shows "take_digits (show_nat n @ rest) = Some (show_nat n, rest)"
proof -
  have t: "takeWhile is_digit rest = []" and d: "dropWhile is_digit rest = rest"
    using assms by (cases rest; auto)+
  have "takeWhile is_digit (show_nat n @ rest) = show_nat n"
    by (simp add: takeWhile_append2 show_nat_digits t)
  moreover have "dropWhile is_digit (show_nat n @ rest) = rest"
    by (simp add: dropWhile_append2 show_nat_digits d)
  ultimately show ?thesis
    by (simp add: take_digits_def show_nat_nonempty)
qed

lemma take_digits_non_digit: "\<not> is_digit c \<Longrightarrow> take_digits (c # s) = None"
  by (simp add: take_digits_def)

lemma starts_with_append: "starts_with (p @ s) p"
  by (induction p) auto

lemma take_lit_exact: "take_lit False p (p @ s) = Some s"
  by (simp add: take_lit_def starts_with_append)

lemma find_first_hit: "m s = Some r \<Longrightarrow> find_first m s = Some ([], r)"
  by (cases s) auto

lemma find_first_skip:
  assumes "\<And>c s. c \<in> set pre \<Longrightarrow> m (c # s) = None" and "m s = Some r"
  shows "find_first m (pre @ s) = Some (pre, r)"
  using assms(1)
proof (induction pre)
  case Nil
  then show ?case by (simp add: find_first_hit assms(2))
next
  case (Cons c pre)
  then show ?case by simp
qed

lemma str_includes_starts: "starts_with s p \<Longrightarrow> str_includes s p"
  by (cases s) auto

lemma str_includes_middle: "str_includes (a @ p @ b) p"
proof (induction a)
  case Nil
  then show ?case by (simp add: str_includes_starts starts_with_append)
next
  case (Cons c a)
  then show ?case by simp
qed



lemma non_digit_simps:
  "\<not> is_digit (CHR '' '')" "\<not> is_digit (CHR ''S'')" "\<not> is_digit (CHR ''L'')"
  "\<not> is_digit (CHR ''A'')" "\<not> is_digit (CHR ''W'')" "\<not> is_digit (CHR ''a'')"
  "\<not> is_digit (CHR ''r'')" "\<not> is_digit (CHR ''n'')" "\<not> is_digit (CHR ''i'')"
  "\<not> is_digit (CHR ''g'')" "\<not> is_digit (CHR ''-'')"
  by (simp_all add: is_digit_def)

lemma re_min_remaining_show:
  "re_min_remaining (show_nat R @ '' min remaining'' @ suf) = Some (show_nat R, suf)"
proof -
  have "take_digits (show_nat R @ '' min remaining'' @ suf) =
      Some (show_nat R, '' min remaining'' @ suf)"
    by (rule take_digits_show_nat) (simp add: is_digit_def)
  then show ?thesis
    by (simp only: re_min_remaining_def option.case prod.case take_lit_exact)
qed

lemma warning_details_parse:
  "find_first re_min_remaining (''SLA Warning - '' @ show_nat R @ '' min remaining'' @ suf) =
     Some (''SLA Warning - '', show_nat R, suf)"
proof (rule find_first_skip)
  fix c s assume "c \<in> set ''SLA Warning - ''"
  then have "\<not> is_digit c" by (auto simp: is_digit_def)
  then show "re_min_remaining (c # s) = None"
    by (simp add: re_min_remaining_def take_digits_non_digit)
next
  show "re_min_remaining (show_nat R @ '' min remaining'' @ suf) = Some (show_nat R, suf)"
    by (rule re_min_remaining_show)
qed

lemma warning_details_replace:
  assumes "\<not> has_line_terminator suf"
  shows "find_first re_min_remaining_tail
           (''SLA Warning - '' @ show_nat R @ '' min remaining'' @ suf) =
         Some (''SLA Warning - '', suf)"
proof (rule find_first_skip)
  fix c s assume "c \<in> set ''SLA Warning - ''"
  then have "\<not> is_digit c" by (auto simp: is_digit_def)
  then show "re_min_remaining_tail (c # s) = None"
    by (simp add: re_min_remaining_tail_def re_min_remaining_def take_digits_non_digit)
next
  show "re_min_remaining_tail (show_nat R @ '' min remaining'' @ suf) = Some suf"
    using assms by (simp only: re_min_remaining_tail_def re_min_remaining_show option.case prod.case if_False)
qed

lemma warning_details_includes:
  "str_includes (''SLA Warning - '' @ show_nat R @ '' min remaining'' @ suf) ''SLA Warning - ''"
  "str_includes (''SLA Warning - '' @ show_nat R @ '' min remaining'' @ suf) ''min remaining''"
proof -
  show "str_includes (''SLA Warning - '' @ show_nat R @ '' min remaining'' @ suf) ''SLA Warning - ''"
    by (rule str_includes_starts) (rule starts_with_append)
  have "''SLA Warning - '' @ show_nat R @ '' min remaining'' @ suf =
      (''SLA Warning - '' @ show_nat R @ '' '') @ ''min remaining'' @ suf"
    by simp
  then show "str_includes (''SLA Warning - '' @ show_nat R @ '' min remaining'' @ suf) ''min remaining''"
    by (simp only: str_includes_middle)
qed









subsection \<open>The live countdown of a warning\<close>

lemma warning_block_live:
  assumes d: "n_details db = ''SLA Warning - '' @ show_nat R @ '' min remaining'' @ suf"
    and c: "n_created_at db = Some t0"
  shows "warning_block (Some now) db =
     (let x = int R * 60000 - (now - t0)
      in if x \<le> 0 then
           Some (''Overdue by '' @ show_int (abs x div 60000) @ '' min '' @ bullet @ '' '' @
                   show_int ((now - t0) div 60000) @ '' min ago'',
                 ''Overdue by '' @ show_int (abs x div 60000) @ '' min'', True)
         else
           Some ((case find_first re_min_remaining_tail (n_details db) of
                    None \<Rightarrow> n_details db
                  | Some (before', tail) \<Rightarrow>
                      before' @ show_int (max 0 (- ((- x) div 60000))) @ '' min remaining'' @ tail),
                 show_int (max 0 (- ((- x) div 60000))) @ '' min remaining'', False))"
  unfolding warning_block_def Let_def c
  by (simp only: d warning_details_includes warning_details_parse parse_show_nat
      option.case prod.case simp_thms if_True)

lemma ceil_pos:
  fixes x :: int
  assumes "0 < x"
  shows "max 0 (- ((- x) div 60000)) = - ((- x) div 60000)"
proof -
  from assms have "(- x) div 60000 < 0"
    using int_div_less_iff [of 60000 "- x" 0] by simp
  then show ?thesis by simp
qed

lemma transform_fields:
  "fn_type (transform ct db) =
     derive_type (case warning_block ct db of None \<Rightarrow> False | Some (d, r, e) \<Rightarrow> e) db"
  "fn_message (transform ct db) =
     (case warning_block ct db of None \<Rightarrow> fst (overdue_block ct db) | Some (d, r, e) \<Rightarrow> d)"
  "fn_sla_remaining (transform ct db) =
     (case warning_block ct db of
        Some (d, r, e) \<Rightarrow> Some r
      | None \<Rightarrow>
          (case snd (overdue_block ct db) of
             None \<Rightarrow> None
           | Some om \<Rightarrow> if om \<noteq> 0 then Some (''Overdue by '' @ show_int om @ '' min'') else None))"
  "fn_priority (transform ct db) =
     (if (case snd (overdue_block ct db) of None \<Rightarrow> False | Some om \<Rightarrow> om \<noteq> 0) \<or>
         (case warning_block ct db of None \<Rightarrow> False | Some (d, r, e) \<Rightarrow> e)
      then critical else (case n_priority db of None \<Rightarrow> medium | Some p \<Rightarrow> p))"
  "fn_overdue_minutes (transform ct db) = snd (overdue_block ct db)"
  "fn_escalation_managers (transform ct db) = m_escalation_managers (getMembersForTask (n_task_id db))"
  "fn_members_list (transform ct db) = m_members_list (getMembersForTask (n_task_id db))"
  by (simp_all add: transform_def Let_def case_prod_beta split: option.splits)

text \<open>
  The display of a stored warning whose detail is \<open>SLA Warning - R min remaining\<close>
  followed by any text, created at \<open>t0\<close> and read at \<open>now\<close>. Let \<open>x\<close> be the exact
  remaining time, \<open>R\<close> minutes minus the elapsed milliseconds. While \<open>x\<close> is positive
  the display is \<open>ceil\<close> of the exact remaining minutes, as \<open>N min remaining\<close> (and in
  the message, with the text after it kept, when that text has no line break). Once \<open>x\<close>
  is zero or negative the displayed type is \<open>sla_overdue\<close> with priority critical, and
  the display reads \<open>Overdue by N min\<close> with \<open>N\<close> the \<open>floor\<close> of the exact overdue
  minutes. \<open>transform\<close> is a function of the stored row: the row itself is not changed.
\<close>

lemma live_warning_display:
  assumes d: "n_details db = ''SLA Warning - '' @ show_nat R @ '' min remaining'' @ suf"
    and c: "n_created_at db = Some t0"
  shows "(0 < int R * 60000 - (now - t0) \<longrightarrow>
            fn_sla_remaining (transform (Some now) db) =
              Some (show_int (- ((- (int R * 60000 - (now - t0))) div 60000)) @ '' min remaining'') \<and>
            (\<not> has_line_terminator suf \<longrightarrow>
               fn_message (transform (Some now) db) =
                 ''SLA Warning - '' @ show_int (- ((- (int R * 60000 - (now - t0))) div 60000)) @
                 '' min remaining'' @ suf)) \<and>
         (int R * 60000 - (now - t0) \<le> 0 \<longrightarrow>
            fn_type (transform (Some now) db) = sla_overdue \<and>
            fn_priority (transform (Some now) db) = critical \<and>
            fn_sla_remaining (transform (Some now) db) =
              Some (''Overdue by '' @ show_int (abs (int R * 60000 - (now - t0)) div 60000) @ '' min'') \<and>
            fn_message (transform (Some now) db) =
              ''Overdue by '' @ show_int (abs (int R * 60000 - (now - t0)) div 60000) @ '' min '' @
              bullet @ '' '' @ show_int ((now - t0) div 60000) @ '' min ago'')"
proof (intro conjI impI)
  let ?x = "int R * 60000 - (now - t0)"
  note wb = warning_block_live [OF d c, of now]
  {
    assume pos: "0 < ?x"
    then have w: "warning_block (Some now) db =
        Some ((case find_first re_min_remaining_tail (n_details db) of
                 None \<Rightarrow> n_details db
               | Some (before', tail) \<Rightarrow>
                   before' @ show_int (- ((- ?x) div 60000)) @ '' min remaining'' @ tail),
              show_int (- ((- ?x) div 60000)) @ '' min remaining'', False)"
    proof -
      from pos have nx: "\<not> ?x \<le> 0" by simp
      have m: "max 0 (- ((- ?x) div 60000)) = - ((- ?x) div 60000)"
        using pos by (rule ceil_pos)
      show ?thesis
        unfolding wb Let_def m by (simp only: nx if_False)
    qed
    show "fn_sla_remaining (transform (Some now) db) =
        Some (show_int (- ((- ?x) div 60000)) @ '' min remaining'')"
      by (simp add: transform_fields w)
    assume nolt: "\<not> has_line_terminator suf"
    have "fn_message (transform (Some now) db) =
        (case find_first re_min_remaining_tail (n_details db) of
           None \<Rightarrow> n_details db
         | Some (before', tail) \<Rightarrow>
             before' @ show_int (- ((- ?x) div 60000)) @ '' min remaining'' @ tail)"
      by (simp add: transform_fields w)
    also have "\<dots> = ''SLA Warning - '' @ show_int (- ((- ?x) div 60000)) @ '' min remaining'' @ suf"
      unfolding d warning_details_replace [OF nolt] by (simp only: option.case prod.case)
    finally show "fn_message (transform (Some now) db) =
        ''SLA Warning - '' @ show_int (- ((- ?x) div 60000)) @ '' min remaining'' @ suf" .
  }
  {
    assume neg: "?x \<le> 0"
    then have w: "warning_block (Some now) db =
        Some (''Overdue by '' @ show_int (abs ?x div 60000) @ '' min '' @ bullet @ '' '' @
                show_int ((now - t0) div 60000) @ '' min ago'',
              ''Overdue by '' @ show_int (abs ?x div 60000) @ '' min'', True)"
      by (simp add: wb Let_def)
    show "fn_type (transform (Some now) db) = sla_overdue"
      by (simp add: transform_fields w derive_type_def)
    show "fn_priority (transform (Some now) db) = critical"
      by (simp add: transform_fields w)
    show "fn_sla_remaining (transform (Some now) db) =
        Some (''Overdue by '' @ show_int (abs ?x div 60000) @ '' min'')"
      by (simp add: transform_fields w)
    show "fn_message (transform (Some now) db) =
        ''Overdue by '' @ show_int (abs ?x div 60000) @ '' min '' @
        bullet @ '' '' @ show_int ((now - t0) div 60000) @ '' min ago''"
      by (simp add: transform_fields w)
  }
qed

text \<open>
  Claim C4. The example of the specification, a warning of 15 minutes. After five
  minutes it shows 10 minutes remaining, as the claim says. After sixteen minutes its type
  is \<open>sla_overdue\<close> and both texts say ``Overdue by 1 min'', the \<open>floor\<close> of the exact
  overdue time; the claim asks for \<open>overdue_minutes = 1\<close> as well, and the field
  \<open>overdue_minutes\<close> of the notification is not set: it is filled from an
  ``overdue by N min'' in the stored detail alone, which a warning does not have.
\<close>

theorem expired_warning_overdue_minutes_unset:
  "fn_sla_remaining (transform (Some 300000) (warning_event 15 ('' '' @ bullet @ '' need to start'') 0)) =
     Some ''10 min remaining'' \<and>
   fn_type (transform (Some 960000) (warning_event 15 ('' '' @ bullet @ '' need to start'') 0)) =
     sla_overdue \<and>
   fn_sla_remaining (transform (Some 960000) (warning_event 15 ('' '' @ bullet @ '' need to start'') 0)) =
     Some ''Overdue by 1 min'' \<and>
   fn_message (transform (Some 960000) (warning_event 15 ('' '' @ bullet @ '' need to start'') 0)) =
     ''Overdue by 1 min '' @ bullet @ '' 16 min ago'' \<and>
   fn_overdue_minutes (transform (Some 960000) (warning_event 15 ('' '' @ bullet @ '' need to start'') 0)) =
     None"
proof -
  let ?sfx = "'' '' @ bullet @ '' need to start''"
  let ?ev = "warning_event 15 ?sfx 0"
  have d: "n_details ?ev = ''SLA Warning - '' @ show_nat 15 @ '' min remaining'' @ ?sfx"
    and c: "n_created_at ?ev = Some 0"
    by (simp_all add: warning_event_def)
  have n10: "show_int (- ((- (int 15 * 60000 - (300000 - 0))) div 60000)) = ''10''"
    by (simp add: show_int_def show_nat.simps digit_char_def char_of_eq_iff)
  have n1: "show_int (abs (int 15 * 60000 - (960000 - 0)) div 60000) = ''1''"
    by (simp add: show_int_def show_nat.simps digit_char_def char_of_eq_iff)
  have n16: "show_int ((960000 - 0) div 60000) = ''16''"
    by (simp add: show_int_def show_nat.simps digit_char_def char_of_eq_iff)
  have p: "0 < int 15 * 60000 - (300000 - 0)" and q: "int 15 * 60000 - (960000 - 0) \<le> 0"
    by simp_all
  from live_warning_display [OF d c, of 300000] p
  have a: "fn_sla_remaining (transform (Some 300000) ?ev) = Some ''10 min remaining''"
    unfolding n10 by simp
  from live_warning_display [OF d c, of 960000] q
  have b: "fn_type (transform (Some 960000) ?ev) = sla_overdue"
    "fn_sla_remaining (transform (Some 960000) ?ev) = Some ''Overdue by 1 min''"
    "fn_message (transform (Some 960000) ?ev) = ''Overdue by 1 min '' @ bullet @ '' 16 min ago''"
    unfolding n1 n16 by simp_all
  have f: "find_first re_overdue_by (n_details ?ev) = None"
    by (simp add: warning_event_def show_nat.simps digit_char_def bullet_def re_overdue_by_def
        take_lit_def lower_def lower_char_def char_of_eq_iff)
  have o: "fn_overdue_minutes (transform (Some 960000) ?ev) = None"
    unfolding transform_fields overdue_block_def Let_def f by simp
  from a b o show ?thesis by blast
qed

subsection \<open>The live minutes of an overdue event\<close>




subsection \<open>Server and client on the same event\<close>

text \<open>
  Claim C6. For an event tagged \<open>sla_alert\<close> whose detail contains ``overdue'' the
  claim asks for type \<open>sla_overdue\<close> and priority \<open>critical\<close>. The type \<open>CASE\<close> of
  \<open>GET /\<close> tests the action tags before any text of the detail and answers
  \<open>sla_warning\<close>; the priority \<open>CASE\<close> of the same query tests the detail first and
  answers \<open>critical\<close>; and the client, which derives the type of the row again, tests
  the detail first and displays \<open>sla_overdue\<close>.
\<close>

theorem classify_sla_alert_with_overdue_detail:
  "classify (n_action alert_with_overdue_detail) (n_details alert_with_overdue_detail) =
     (sla_warning, critical) \<and>
   fn_type (transform (Some 0) alert_with_overdue_detail) = sla_overdue"
proof -
  have w: "warning_block (Some 0) alert_with_overdue_detail = None"
    by (simp add: warning_block_def alert_with_overdue_detail_def)
  have t: "derive_type False alert_with_overdue_detail = sla_overdue"
    by (simp add: derive_type_def alert_with_overdue_detail_def lower_def lower_char_def
        char_of_eq_iff)
  have c: "classify (n_action alert_with_overdue_detail) (n_details alert_with_overdue_detail) =
      (sla_warning, critical)"
    by (simp add: classify_def sql_type_def sql_priority_def alert_with_overdue_detail_def
        lower_def lower_char_def char_of_eq_iff)
  from c show ?thesis
    by (simp add: transform_fields w t)
qed

subsection \<open>Escalation managers on the page\<close>

text \<open>
  Claim C8, as amended. The page shows the escalation managers of a notification
  exactly when its derived type is \<open>sla_overdue\<close> and its task is one of those for
  which \<open>getMembersForTask\<close> knows members (the lists are then not empty). The
  notification object carries the list whatever its type.
\<close>

theorem escalation_managers_shown_iff:
  "(shows_escalation_managers (transform ct db) \<longleftrightarrow>
      fn_type (transform ct db) = sla_overdue \<and> n_task_id db \<in> {1, 2, 3, 4, 5, 6, 16}) \<and>
   fn_escalation_managers (transform ct db) =
     m_escalation_managers (getMembersForTask (n_task_id db))"
  by (auto simp: shows_escalation_managers_def transform_fields getMembersForTask_def)

text \<open>
  The claim as stated fails for the type \<open>escalation\<close>: the notification of an
  \<open>escalation_required\<close> event of task 1 carries two escalation managers and the page
  does not show them.
\<close>

theorem escalation_type_counterexample:
  "fn_type (transform (Some 180000) escalation_event) = escalation \<and>
   fn_escalation_managers (transform (Some 180000) escalation_event) =
     [''Sarah Wilson'', ''Mike Johnson''] \<and>
   \<not> shows_escalation_managers (transform (Some 180000) escalation_event)"
proof -
  have w: "warning_block (Some 180000) escalation_event = None"
    by (simp add: warning_block_def escalation_event_def)
  have t: "derive_type False escalation_event = escalation"
    by (simp add: derive_type_def escalation_event_def lower_def lower_char_def char_of_eq_iff)
  have i: "n_task_id escalation_event = 1"
    by (simp add: escalation_event_def)
  show ?thesis
    by (simp add: shows_escalation_managers_def transform_fields w t i getMembersForTask_def)
qed

subsection \<open>Answers without the database\<close>

lemma filters_compose:
  "(case q_read q of
      None \<Rightarrow>
        (case q_type q of
           None \<Rightarrow> (case q_user_id q of None \<Rightarrow> xs | Some u \<Rightarrow> filter (\<lambda>n. Num (mk_user_id n) = u) xs)
         | Some t \<Rightarrow>
             filter (\<lambda>n. mk_type n = t)
               (case q_user_id q of None \<Rightarrow> xs | Some u \<Rightarrow> filter (\<lambda>n. Num (mk_user_id n) = u) xs))
    | Some r \<Rightarrow>
        filter (\<lambda>n. mk_read n = (r = ''true''))
          (case q_type q of
             None \<Rightarrow> (case q_user_id q of None \<Rightarrow> xs | Some u \<Rightarrow> filter (\<lambda>n. Num (mk_user_id n) = u) xs)
           | Some t \<Rightarrow>
               filter (\<lambda>n. mk_type n = t)
                 (case q_user_id q of None \<Rightarrow> xs | Some u \<Rightarrow> filter (\<lambda>n. Num (mk_user_id n) = u) xs))) =
   filter (passes_filters q) xs"
  by (cases "q_read q"; cases "q_type q"; cases "q_user_id q")
     (auto simp: passes_filters_def intro: filter_cong)

lemma js_slice_page:
  assumes "0 \<le> off" "0 \<le> lim"
  shows "js_slice xs (Num off) (js_add (Num off) (Num lim)) = take (nat lim) (drop (nat off) xs)"
proof -
  have m: "nat (min i (int n)) = min (nat i) n" for i n
    by (simp add: min_def) linarith
  have k: "js_index (length xs) (Num off) = min (nat off) (length xs)"
    using assms by (simp add: js_index_def m)
  have f: "js_index (length xs) (js_add (Num off) (Num lim)) = min (nat off + nat lim) (length xs)"
    using assms by (simp add: js_index_def js_add_def m nat_add_distrib)
  show ?thesis
  proof (cases "nat off \<le> length xs")
    case True
    show ?thesis
    proof (cases "nat off + nat lim \<le> length xs")
      case le: True
      with True show ?thesis
        by (simp add: js_slice_def Let_def k f min_def)
    next
      case gt: False
      with True have "length (drop (nat off) xs) \<le> nat lim" by simp
      then have "take (nat lim) (drop (nat off) xs) = drop (nat off) xs"
        by (rule take_all)
      with True gt show ?thesis
        by (simp add: js_slice_def Let_def k f min_def)
    qed
  next
    case False
    then show ?thesis
      by (simp add: js_slice_def Let_def k f)
  qed
qed

text \<open>
  Claim C9, as amended. Without the database \<open>GET /\<close> answers with mock
  notifications and never with an error. When a query fails after the probe it answers
  with all three. When the probe fails it answers with those of the three that pass
  every filter whose parameter is present (\<open>user_id\<close>, \<open>type\<close>, \<open>read\<close>), in their
  order, cut by \<open>slice(offset, offset + limit)\<close>: for an offset and a limit that are
  not negative, the first \<open>limit\<close> of them after the first \<open>offset\<close>. For a request
  without parameters these are all three.
\<close>

theorem degraded_returns_mocks:
  "rs_notifications (get_notifications_degraded loaded ProbeFails q) =
     js_slice (filter (passes_filters q) (mockNotifications loaded))
       (q_offset q) (js_add (q_offset q) (q_limit q)) \<and>
   (0 \<le> off \<and> 0 \<le> lim \<longrightarrow>
      js_slice xs (Num off) (js_add (Num off) (Num lim)) = take (nat lim) (drop (nat off) xs)) \<and>
   rs_notifications (get_notifications_degraded loaded QueryFails q) = mockNotifications loaded \<and>
   rs_notifications (get_notifications_degraded loaded ProbeFails default_query) =
     mockNotifications loaded \<and>
   length (mockNotifications loaded) = 3"
proof (intro conjI impI)
  show "rs_notifications (get_notifications_degraded loaded ProbeFails q) =
     js_slice (filter (passes_filters q) (mockNotifications loaded))
       (q_offset q) (js_add (q_offset q) (q_limit q))"
    by (simp add: get_notifications_degraded_def Let_def filters_compose)
  show "js_slice xs (Num off) (js_add (Num off) (Num lim)) = take (nat lim) (drop (nat off) xs)"
    if "0 \<le> off \<and> 0 \<le> lim"
    using that by (simp add: js_slice_page)
  show "rs_notifications (get_notifications_degraded loaded QueryFails q) = mockNotifications loaded"
    by (simp add: get_notifications_degraded_def)
  show "rs_notifications (get_notifications_degraded loaded ProbeFails default_query) =
     mockNotifications loaded"
    by (simp add: get_notifications_degraded_def default_query_def Let_def js_slice_def
        js_index_def js_add_def mockNotifications_def)
  show "length (mockNotifications loaded) = 3"
    by (simp add: mockNotifications_def)
qed

text \<open>
  A request for the type \<open>completed\<close> with the default offset and limit gets the third
  mock notification alone; one that also skips the first match gets none.
\<close>

theorem degraded_returns_mocks_witness:
  "(0::int) \<le> 0 \<and> (0::int) \<le> 50 \<and>
   map mk_id (rs_notifications (get_notifications_degraded 0 ProbeFails
     (default_query\<lparr>q_type := Some ''completed''\<rparr>))) = [''3'']"
proof -
  let ?q = "default_query\<lparr>q_type := Some ''completed''\<rparr>"
  have o: "q_offset ?q = Num 0" "q_limit ?q = Num 50"
    by (simp_all add: default_query_def)
  have f: "map mk_id (filter (passes_filters ?q) (mockNotifications 0)) = [''3'']"
    by (simp add: passes_filters_def default_query_def mockNotifications_def)
  from degraded_returns_mocks [of 0 ?q 0 50 "filter (passes_filters ?q) (mockNotifications 0)"]
  have "rs_notifications (get_notifications_degraded 0 ProbeFails ?q) =
      take (nat 50) (drop (nat 0) (filter (passes_filters ?q) (mockNotifications 0)))"
    unfolding o by simp
  then have "map mk_id (rs_notifications (get_notifications_degraded 0 ProbeFails ?q)) =
      take 50 (map mk_id (filter (passes_filters ?q) (mockNotifications 0)))"
    by (simp add: take_map)
  with f show ?thesis by simp
qed

text \<open>
  The claim as stated fails for a request without parameters: the result set holds the
  three mock notifications, of which two are unread.
\<close>

theorem unavailable_store_counterexample:
  "map mk_id (rs_notifications (get_notifications_degraded 0 ProbeFails default_query)) =
     [''1'', ''2'', ''3''] \<and>
   rs_unread_count (get_notifications_degraded 0 ProbeFails default_query) = 2"
  by (simp add: get_notifications_degraded_def default_query_def Let_def js_slice_def
      js_index_def js_add_def mockNotifications_def)


end
